theory Spec2Isabelle
  imports Main "HOL-Library.Finite_Map" "HOL-Library.Sublist" "HOL-Library.Word"
begin

section \<open>Shared conventions\<close>

text \<open>
  A Go \<^verbatim>\<open>error\<close> is modelled by its message; \<^verbatim>\<open>nil\<close> is \<open>None\<close> where a function
  returns only an error, and fallible functions with a result return \<open>error + 'a\<close>.
  A Go \<^verbatim>\<open>map[string]T\<close> whose size is read is a finite map; Go's \<^verbatim>\<open>int\<close> is \<open>int\<close>
  (the configuration paths only store and compare such numbers; the one product that
  can wrap, in the heartbeat check, is written out).
\<close>

type_synonym error = string

section \<open>Go library functions used by the sources\<close>

text \<open>
  The functions of Go's \<^verbatim>\<open>strings\<close>, \<^verbatim>\<open>strconv\<close> and \<^verbatim>\<open>fmt\<close> packages that the modelled
  code calls, written from their documented behaviour on byte strings.
\<close>

definition HasPrefix :: "string \<Rightarrow> string \<Rightarrow> bool" where
  "HasPrefix s p = (take (length p) s = p)"

definition TrimPrefix :: "string \<Rightarrow> string \<Rightarrow> string" where
  "TrimPrefix s p = (if HasPrefix s p then drop (length p) s else s)"

definition Contains :: "string \<Rightarrow> string \<Rightarrow> bool" where
  "Contains s sub = sublist sub s"

fun Join :: "string list \<Rightarrow> string \<Rightarrow> string" where
  "Join [] sep = []"
| "Join [x] sep = x"
| "Join (x # y # ys) sep = x @ sep @ Join (y # ys) sep"

text \<open>
  \<^verbatim>\<open>strings.Split(s, sep)\<close>: the pieces of \<open>s\<close> between the non-overlapping occurrences
  of \<open>sep\<close>, scanned from the left; always at least one piece. With an empty separator
  Go explodes the string into its characters (bytes here).
\<close>

function Split_from :: "string \<Rightarrow> string \<Rightarrow> string \<Rightarrow> string list" where
  "Split_from sep cur s =
     (if s = [] then [cur]
      else if sep \<noteq> [] \<and> HasPrefix s sep then cur # Split_from sep [] (drop (length sep) s)
      else Split_from sep (cur @ [hd s]) (tl s))"
  by pat_completeness auto
termination
  by (relation "measure (\<lambda>(sep, cur, s). length s)") auto

declare Split_from.simps [simp del]

definition Split :: "string \<Rightarrow> string \<Rightarrow> string list" where
  "Split s sep = (if sep = [] then map (\<lambda>c. [c]) s else Split_from sep [] s)"

text \<open>
  \<^verbatim>\<open>strings.TrimSpace\<close> and \<^verbatim>\<open>strings.ToLower\<close> on ASCII: the six ASCII white-space
  characters are trimmed and the letters A to Z are mapped to a to z. (Go also treats
  the non-ASCII Unicode white space and letters; the modelled paths only apply these
  two functions to domain names.)
\<close>

definition isSpace :: "char \<Rightarrow> bool" where
  "isSpace c = (c \<in> set [CHR 0x09, CHR 0x0A, CHR 0x0B, CHR 0x0C, CHR 0x0D, CHR '' ''])"

definition TrimSpace :: "string \<Rightarrow> string" where
  "TrimSpace s = rev (dropWhile isSpace (rev (dropWhile isSpace s)))"

definition toLowerChar :: "char \<Rightarrow> char" where
  "toLowerChar c =
     (let n = (of_char c :: nat) in if 65 \<le> n \<and> n \<le> 90 then char_of (n + 32) else c)"

definition ToLower :: "string \<Rightarrow> string" where
  "ToLower s = map toLowerChar s"

text \<open>
  Decimal numbers. \<^verbatim>\<open>fmt.Sprintf("%d", n)\<close> prints an optional minus sign and the
  decimal digits without leading zeros. \<^verbatim>\<open>strconv.Atoi\<close> and
  \<^verbatim>\<open>strconv.ParseInt(s, 10, 64)\<close> accept an optional sign followed by at least one
  decimal digit and fail on anything else, and on a value outside the 64-bit range.
\<close>

definition digit_char :: "nat \<Rightarrow> char" where
  "digit_char d = char_of (48 + d)"

definition is_digit :: "char \<Rightarrow> bool" where
  "is_digit c = (48 \<le> (of_char c :: nat) \<and> (of_char c :: nat) \<le> 57)"

definition digit_val :: "char \<Rightarrow> nat" where
  "digit_val c = of_char c - 48"

function dec_nat :: "nat \<Rightarrow> string" where
  "dec_nat n = (if n < 10 then [digit_char n] else dec_nat (n div 10) @ [digit_char (n mod 10)])"
  by pat_completeness auto
termination
  by (relation "measure id") auto

declare dec_nat.simps [simp del]

definition Sprintf_d :: "int \<Rightarrow> string" where
  "Sprintf_d i = (if i < 0 then CHR ''-'' # dec_nat (nat (- i)) else dec_nat (nat i))"

fun parse_digits :: "nat \<Rightarrow> string \<Rightarrow> nat option" where
  "parse_digits acc [] = Some acc"
| "parse_digits acc (c # cs) =
     (if is_digit c then parse_digits (10 * acc + digit_val c) cs else None)"

definition ParseInt64 :: "string \<Rightarrow> int option" where
  "ParseInt64 s =
     (let (neg, ds) = (case s of
                         [] \<Rightarrow> (False, [])
                       | c # r \<Rightarrow> if c = CHR ''-'' then (True, r)
                                  else if c = CHR ''+'' then (False, r) else (False, s))
      in if ds = [] then None
         else case parse_digits 0 ds of
                None \<Rightarrow> None
              | Some n \<Rightarrow>
                  (let v = (if neg then - int n else int n)
                   in if - (2 ^ 63) \<le> v \<and> v < 2 ^ 63 then Some v else None))"

definition Atoi :: "string \<Rightarrow> int option" where
  "Atoi s = ParseInt64 s"

section \<open>models/config: proxy configurations\<close>

text \<open>
  The configuration structs of \<^verbatim>\<open>models/config/proxy.go\<close>. An embedded struct is a
  field of the embedding record. A Go slice of strings is a list (a \<^verbatim>\<open>nil\<close> slice and an
  empty one are both \<open>[]\<close>: the code only ranges over them, joins them and takes their
  length). The interface \<^verbatim>\<open>ProxyConf\<close> with its six implementations is a datatype.
\<close>

record LocalSvrConf =
  LocalIp :: string
  LocalPort :: int
  Plugin :: string
  PluginParams :: "(string, string) fmap"

record HealthCheckConf =
  HealthCheckType :: string
  HealthCheckTimeoutS :: int
  HealthCheckMaxFailed :: int
  HealthCheckIntervalS :: int
  HealthCheckUrl :: string
  HealthCheckAddr :: string

record BaseProxyConf =
  ProxyName :: string
  ProxyType :: string
  UseEncryption :: bool
  UseCompression :: bool
  Group :: string
  GroupKey :: string
  ProxyProtocolVersion :: string
  LocalSvr :: LocalSvrConf
  HealthCheck :: HealthCheckConf

record BindInfoConf =
  RemotePort :: int

record DomainConf =
  CustomDomains :: "string list"
  SubDomain :: string

record TcpProxyConf =
  Tcp_Base :: BaseProxyConf
  Tcp_BindInfo :: BindInfoConf

record UdpProxyConf =
  Udp_Base :: BaseProxyConf
  Udp_BindInfo :: BindInfoConf

record HttpProxyConf =
  Http_Base :: BaseProxyConf
  Http_Domain :: DomainConf
  Locations :: "string list"
  HttpUser :: string
  HttpPwd :: string
  HostHeaderRewrite :: string
  Headers :: "(string, string) fmap"

record HttpsProxyConf =
  Https_Base :: BaseProxyConf
  Https_Domain :: DomainConf

record StcpProxyConf =
  Stcp_Base :: BaseProxyConf
  Stcp_Role :: string
  Stcp_Sk :: string

record XtcpProxyConf =
  Xtcp_Base :: BaseProxyConf
  Xtcp_Role :: string
  Xtcp_Sk :: string

datatype ProxyConf =
  Tcp TcpProxyConf
| Udp UdpProxyConf
| Http HttpProxyConf
| Https HttpsProxyConf
| Stcp StcpProxyConf
| Xtcp XtcpProxyConf

fun GetBaseInfo :: "ProxyConf \<Rightarrow> BaseProxyConf" where
  "GetBaseInfo (Tcp c) = Tcp_Base c"
| "GetBaseInfo (Udp c) = Udp_Base c"
| "GetBaseInfo (Http c) = Http_Base c"
| "GetBaseInfo (Https c) = Https_Base c"
| "GetBaseInfo (Stcp c) = Stcp_Base c"
| "GetBaseInfo (Xtcp c) = Xtcp_Base c"

subsection \<open>Zero values and construction by type\<close>

text \<open>
  Modelled from the spec: the constants \<^verbatim>\<open>consts.TcpProxy\<close> ... \<^verbatim>\<open>consts.XtcpProxy\<close> of
  \<^verbatim>\<open>models/consts\<close> are not among the sources; the spec names the six types
  \<open>tcp, udp, http, https, stcp, xtcp\<close>.
\<close>

definition TcpProxy :: string where "TcpProxy = ''tcp''"
definition UdpProxy :: string where "UdpProxy = ''udp''"
definition HttpProxy :: string where "HttpProxy = ''http''"
definition HttpsProxy :: string where "HttpsProxy = ''https''"
definition StcpProxy :: string where "StcpProxy = ''stcp''"
definition XtcpProxy :: string where "XtcpProxy = ''xtcp''"

text \<open>\<^verbatim>\<open>reflect.New(v)\<close> allocates the zero value of the struct.\<close>

definition LocalSvrConf_zero :: LocalSvrConf where
  "LocalSvrConf_zero = \<lparr>LocalIp = [], LocalPort = 0, Plugin = [], PluginParams = fmempty\<rparr>"

definition HealthCheckConf_zero :: HealthCheckConf where
  "HealthCheckConf_zero =
     \<lparr>HealthCheckType = [], HealthCheckTimeoutS = 0, HealthCheckMaxFailed = 0,
      HealthCheckIntervalS = 0, HealthCheckUrl = [], HealthCheckAddr = []\<rparr>"

definition BaseProxyConf_zero :: BaseProxyConf where
  "BaseProxyConf_zero =
     \<lparr>ProxyName = [], ProxyType = [], UseEncryption = False, UseCompression = False,
      Group = [], GroupKey = [], ProxyProtocolVersion = [],
      LocalSvr = LocalSvrConf_zero, HealthCheck = HealthCheckConf_zero\<rparr>"

definition BindInfoConf_zero :: BindInfoConf where
  "BindInfoConf_zero = \<lparr>RemotePort = 0\<rparr>"

definition DomainConf_zero :: DomainConf where
  "DomainConf_zero = \<lparr>CustomDomains = [], SubDomain = []\<rparr>"

definition TcpProxyConf_zero :: TcpProxyConf where
  "TcpProxyConf_zero = \<lparr>Tcp_Base = BaseProxyConf_zero, Tcp_BindInfo = BindInfoConf_zero\<rparr>"

definition UdpProxyConf_zero :: UdpProxyConf where
  "UdpProxyConf_zero = \<lparr>Udp_Base = BaseProxyConf_zero, Udp_BindInfo = BindInfoConf_zero\<rparr>"

definition HttpProxyConf_zero :: HttpProxyConf where
  "HttpProxyConf_zero =
     \<lparr>Http_Base = BaseProxyConf_zero, Http_Domain = DomainConf_zero, Locations = [],
      HttpUser = [], HttpPwd = [], HostHeaderRewrite = [], Headers = fmempty\<rparr>"

definition HttpsProxyConf_zero :: HttpsProxyConf where
  "HttpsProxyConf_zero = \<lparr>Https_Base = BaseProxyConf_zero, Https_Domain = DomainConf_zero\<rparr>"

definition StcpProxyConf_zero :: StcpProxyConf where
  "StcpProxyConf_zero = \<lparr>Stcp_Base = BaseProxyConf_zero, Stcp_Role = [], Stcp_Sk = []\<rparr>"

definition XtcpProxyConf_zero :: XtcpProxyConf where
  "XtcpProxyConf_zero = \<lparr>Xtcp_Base = BaseProxyConf_zero, Xtcp_Role = [], Xtcp_Sk = []\<rparr>"

text \<open>
  \<^verbatim>\<open>proxyConfTypeMap\<close> as filled by \<^verbatim>\<open>init\<close>, and \<^verbatim>\<open>NewConfByType\<close>: the zero
  configuration of the type, \<^verbatim>\<open>nil\<close> (\<open>None\<close>) for a type that is not in the map.
\<close>

definition NewConfByType :: "string \<Rightarrow> ProxyConf option" where
  "NewConfByType proxyType =
     map_of [(TcpProxy, Tcp TcpProxyConf_zero),
             (UdpProxy, Udp UdpProxyConf_zero),
             (HttpProxy, Http HttpProxyConf_zero),
             (HttpsProxy, Https HttpsProxyConf_zero),
             (StcpProxy, Stcp StcpProxyConf_zero),
             (XtcpProxy, Xtcp XtcpProxyConf_zero)] proxyType"

subsection \<open>Compare\<close>

text \<open>
  The loop \<^verbatim>\<open>for k, v := range a { v2, ok := b[k]; if !ok || v != v2 { return false } }\<close>
  over a Go map: every entry of \<open>a\<close> is an entry of \<open>b\<close>. \<^verbatim>\<open>len(m)\<close> is the number of keys.
\<close>

definition map_len :: "(string, string) fmap \<Rightarrow> nat" where
  "map_len m = fcard (fmdom m)"

definition map_entries_in :: "(string, string) fmap \<Rightarrow> (string, string) fmap \<Rightarrow> bool" where
  "map_entries_in a b = fmpred (\<lambda>k v. fmlookup b k = Some v) a"

definition LocalSvrConf_compare :: "LocalSvrConf \<Rightarrow> LocalSvrConf \<Rightarrow> bool" where
  "LocalSvrConf_compare cfg cmp =
     (if LocalIp cfg \<noteq> LocalIp cmp \<or> LocalPort cfg \<noteq> LocalPort cmp then False
      else if Plugin cfg \<noteq> Plugin cmp \<or> map_len (PluginParams cfg) \<noteq> map_len (PluginParams cmp)
        then False
      else map_entries_in (PluginParams cfg) (PluginParams cmp))"

definition HealthCheckConf_compare :: "HealthCheckConf \<Rightarrow> HealthCheckConf \<Rightarrow> bool" where
  "HealthCheckConf_compare cfg cmp =
     (if HealthCheckType cfg \<noteq> HealthCheckType cmp \<or>
         HealthCheckTimeoutS cfg \<noteq> HealthCheckTimeoutS cmp \<or>
         HealthCheckMaxFailed cfg \<noteq> HealthCheckMaxFailed cmp \<or>
         HealthCheckIntervalS cfg \<noteq> HealthCheckIntervalS cmp \<or>
         HealthCheckUrl cfg \<noteq> HealthCheckUrl cmp
      then False else True)"

definition BaseProxyConf_compare :: "BaseProxyConf \<Rightarrow> BaseProxyConf \<Rightarrow> bool" where
  "BaseProxyConf_compare cfg cmp =
     (if ProxyName cfg \<noteq> ProxyName cmp \<or>
         ProxyType cfg \<noteq> ProxyType cmp \<or>
         UseEncryption cfg \<noteq> UseEncryption cmp \<or>
         UseCompression cfg \<noteq> UseCompression cmp \<or>
         Group cfg \<noteq> Group cmp \<or>
         GroupKey cfg \<noteq> GroupKey cmp \<or>
         ProxyProtocolVersion cfg \<noteq> ProxyProtocolVersion cmp
      then False
      else if \<not> LocalSvrConf_compare (LocalSvr cfg) (LocalSvr cmp) then False
      else if \<not> HealthCheckConf_compare (HealthCheck cfg) (HealthCheck cmp) then False
      else True)"

definition BindInfoConf_compare :: "BindInfoConf \<Rightarrow> BindInfoConf \<Rightarrow> bool" where
  "BindInfoConf_compare cfg cmp = (if RemotePort cfg \<noteq> RemotePort cmp then False else True)"

definition DomainConf_compare :: "DomainConf \<Rightarrow> DomainConf \<Rightarrow> bool" where
  "DomainConf_compare cfg cmp =
     (if Join (CustomDomains cfg) '' '' \<noteq> Join (CustomDomains cmp) '' '' \<or>
         SubDomain cfg \<noteq> SubDomain cmp
      then False else True)"

text \<open>
  \<^verbatim>\<open>Compare\<close> of each implementation; the failed type assertion
  \<^verbatim>\<open>cmpConf, ok := cmp.(*TcpProxyConf)\<close> is the last equation.
\<close>

fun Compare :: "ProxyConf \<Rightarrow> ProxyConf \<Rightarrow> bool" where
  "Compare (Tcp cfg) (Tcp cmpConf) =
     (if \<not> BaseProxyConf_compare (Tcp_Base cfg) (Tcp_Base cmpConf) \<or>
         \<not> BindInfoConf_compare (Tcp_BindInfo cfg) (Tcp_BindInfo cmpConf)
      then False else True)"
| "Compare (Udp cfg) (Udp cmpConf) =
     (if \<not> BaseProxyConf_compare (Udp_Base cfg) (Udp_Base cmpConf) \<or>
         \<not> BindInfoConf_compare (Udp_BindInfo cfg) (Udp_BindInfo cmpConf)
      then False else True)"
| "Compare (Http cfg) (Http cmpConf) =
     (if \<not> BaseProxyConf_compare (Http_Base cfg) (Http_Base cmpConf) \<or>
         \<not> DomainConf_compare (Http_Domain cfg) (Http_Domain cmpConf) \<or>
         Join (Locations cfg) '' '' \<noteq> Join (Locations cmpConf) '' '' \<or>
         HostHeaderRewrite cfg \<noteq> HostHeaderRewrite cmpConf \<or>
         HttpUser cfg \<noteq> HttpUser cmpConf \<or>
         HttpPwd cfg \<noteq> HttpPwd cmpConf \<or>
         map_len (Headers cfg) \<noteq> map_len (Headers cmpConf)
      then False
      else map_entries_in (Headers cfg) (Headers cmpConf))"
| "Compare (Https cfg) (Https cmpConf) =
     (if \<not> BaseProxyConf_compare (Https_Base cfg) (Https_Base cmpConf) \<or>
         \<not> DomainConf_compare (Https_Domain cfg) (Https_Domain cmpConf)
      then False else True)"
| "Compare (Stcp cfg) (Stcp cmpConf) =
     (if \<not> BaseProxyConf_compare (Stcp_Base cfg) (Stcp_Base cmpConf) \<or>
         Stcp_Role cfg \<noteq> Stcp_Role cmpConf \<or>
         Stcp_Sk cfg \<noteq> Stcp_Sk cmpConf
      then False else True)"
| "Compare (Xtcp cfg) (Xtcp cmpConf) =
     (if \<not> BaseProxyConf_compare (Xtcp_Base cfg) (Xtcp_Base cmpConf) \<or>
         \<not> LocalSvrConf_compare (LocalSvr (Xtcp_Base cfg)) (LocalSvr (Xtcp_Base cmpConf)) \<or>
         Xtcp_Role cfg \<noteq> Xtcp_Role cmpConf \<or>
         Xtcp_Sk cfg \<noteq> Xtcp_Sk cmpConf
      then False else True)"
| "Compare _ _ = False"

text \<open>
  What \<^verbatim>\<open>Compare\<close> looks at, as a normal form of a configuration: the derived field
  \<^verbatim>\<open>HealthCheckAddr\<close> is never compared, and the two string lists of the domain and HTTP
  settings are compared through their space-joined strings only.
\<close>

definition compared_base :: "BaseProxyConf \<Rightarrow> BaseProxyConf" where
  "compared_base b = b\<lparr>HealthCheck := (HealthCheck b)\<lparr>HealthCheckAddr := []\<rparr>\<rparr>"

definition compared_domain :: "DomainConf \<Rightarrow> DomainConf" where
  "compared_domain d = d\<lparr>CustomDomains := [Join (CustomDomains d) '' '']\<rparr>"

fun compared_view :: "ProxyConf \<Rightarrow> ProxyConf" where
  "compared_view (Tcp c) = Tcp (c\<lparr>Tcp_Base := compared_base (Tcp_Base c)\<rparr>)"
| "compared_view (Udp c) = Udp (c\<lparr>Udp_Base := compared_base (Udp_Base c)\<rparr>)"
| "compared_view (Http c) =
     Http (c\<lparr>Http_Base := compared_base (Http_Base c),
             Http_Domain := compared_domain (Http_Domain c),
             Locations := [Join (Locations c) '' '']\<rparr>)"
| "compared_view (Https c) =
     Https (c\<lparr>Https_Base := compared_base (Https_Base c),
              Https_Domain := compared_domain (Https_Domain c)\<rparr>)"
| "compared_view (Stcp c) = Stcp (c\<lparr>Stcp_Base := compared_base (Stcp_Base c)\<rparr>)"
| "compared_view (Xtcp c) = Xtcp (c\<lparr>Xtcp_Base := compared_base (Xtcp_Base c)\<rparr>)"

subsection \<open>Configurations from a NewProxy message (server side)\<close>

text \<open>
  The fields of \<^verbatim>\<open>msg.NewProxy\<close> that \<^verbatim>\<open>UnmarshalFromMsg\<close> reads (the struct is declared in
  \<^verbatim>\<open>models/msg\<close>), and the package variables \<^verbatim>\<open>vhostHttpPort\<close>, \<^verbatim>\<open>vhostHttpsPort\<close> and
  \<^verbatim>\<open>subDomainHost\<close> of the server configuration, which are parameters of the checks.
\<close>

record NewProxy =
  msg_ProxyName :: string
  msg_ProxyType :: string
  msg_UseEncryption :: bool
  msg_UseCompression :: bool
  msg_Group :: string
  msg_GroupKey :: string
  msg_RemotePort :: int
  msg_CustomDomains :: "string list"
  msg_SubDomain :: string
  msg_Locations :: "string list"
  msg_HttpUser :: string
  msg_HttpPwd :: string
  msg_HostHeaderRewrite :: string
  msg_Headers :: "(string, string) fmap"
  msg_Sk :: string

record SvrGlobals =
  vhostHttpPort :: int
  vhostHttpsPort :: int
  subDomainHost :: string

definition BaseProxyConf_UnmarshalFromMsg :: "NewProxy \<Rightarrow> BaseProxyConf \<Rightarrow> BaseProxyConf" where
  "BaseProxyConf_UnmarshalFromMsg pMsg cfg =
     cfg\<lparr>ProxyName := msg_ProxyName pMsg,
         ProxyType := msg_ProxyType pMsg,
         UseEncryption := msg_UseEncryption pMsg,
         UseCompression := msg_UseCompression pMsg,
         Group := msg_Group pMsg,
         GroupKey := msg_GroupKey pMsg\<rparr>"

definition BindInfoConf_UnmarshalFromMsg :: "NewProxy \<Rightarrow> BindInfoConf \<Rightarrow> BindInfoConf" where
  "BindInfoConf_UnmarshalFromMsg pMsg cfg = cfg\<lparr>RemotePort := msg_RemotePort pMsg\<rparr>"

definition DomainConf_UnmarshalFromMsg :: "NewProxy \<Rightarrow> DomainConf \<Rightarrow> DomainConf" where
  "DomainConf_UnmarshalFromMsg pMsg cfg =
     cfg\<lparr>CustomDomains := msg_CustomDomains pMsg, SubDomain := msg_SubDomain pMsg\<rparr>"

fun UnmarshalFromMsg :: "NewProxy \<Rightarrow> ProxyConf \<Rightarrow> ProxyConf" where
  "UnmarshalFromMsg pMsg (Tcp cfg) =
     Tcp (cfg\<lparr>Tcp_Base := BaseProxyConf_UnmarshalFromMsg pMsg (Tcp_Base cfg),
              Tcp_BindInfo := BindInfoConf_UnmarshalFromMsg pMsg (Tcp_BindInfo cfg)\<rparr>)"
| "UnmarshalFromMsg pMsg (Udp cfg) =
     Udp (cfg\<lparr>Udp_Base := BaseProxyConf_UnmarshalFromMsg pMsg (Udp_Base cfg),
              Udp_BindInfo := BindInfoConf_UnmarshalFromMsg pMsg (Udp_BindInfo cfg)\<rparr>)"
| "UnmarshalFromMsg pMsg (Http cfg) =
     Http (cfg\<lparr>Http_Base := BaseProxyConf_UnmarshalFromMsg pMsg (Http_Base cfg),
               Http_Domain := DomainConf_UnmarshalFromMsg pMsg (Http_Domain cfg),
               Locations := msg_Locations pMsg,
               HostHeaderRewrite := msg_HostHeaderRewrite pMsg,
               HttpUser := msg_HttpUser pMsg,
               HttpPwd := msg_HttpPwd pMsg,
               Headers := msg_Headers pMsg\<rparr>)"
| "UnmarshalFromMsg pMsg (Https cfg) =
     Https (cfg\<lparr>Https_Base := BaseProxyConf_UnmarshalFromMsg pMsg (Https_Base cfg),
                Https_Domain := DomainConf_UnmarshalFromMsg pMsg (Https_Domain cfg)\<rparr>)"
| "UnmarshalFromMsg pMsg (Stcp cfg) =
     Stcp (cfg\<lparr>Stcp_Base := BaseProxyConf_UnmarshalFromMsg pMsg (Stcp_Base cfg),
               Stcp_Sk := msg_Sk pMsg\<rparr>)"
| "UnmarshalFromMsg pMsg (Xtcp cfg) =
     Xtcp (cfg\<lparr>Xtcp_Base := BaseProxyConf_UnmarshalFromMsg pMsg (Xtcp_Base cfg),
               Xtcp_Sk := msg_Sk pMsg\<rparr>)"

definition DomainConf_check :: "DomainConf \<Rightarrow> error option" where
  "DomainConf_check cfg =
     (if length (CustomDomains cfg) = 0 \<and> SubDomain cfg = []
      then Some ''custom_domains and subdomain should set at least one of them''
      else None)"

text \<open>The loop of \<^verbatim>\<open>checkForSvr\<close> over the custom domains: the first offending domain.\<close>

fun custom_domains_check :: "string \<Rightarrow> string list \<Rightarrow> error option" where
  "custom_domains_check sdh [] = None"
| "custom_domains_check sdh (domain # rest) =
     (if sdh \<noteq> [] \<and> length (Split sdh ''.'') < length (Split domain ''.'') \<and> Contains domain sdh
      then Some (''custom domain ['' @ domain @ ''] should not belong to subdomain_host ['' @ sdh @ '']'')
      else custom_domains_check sdh rest)"

definition DomainConf_checkForSvr :: "SvrGlobals \<Rightarrow> DomainConf \<Rightarrow> error option" where
  "DomainConf_checkForSvr g cfg =
     (case DomainConf_check cfg of
        Some err \<Rightarrow> Some err
      | None \<Rightarrow>
         (case custom_domains_check (subDomainHost g) (CustomDomains cfg) of
            Some err \<Rightarrow> Some err
          | None \<Rightarrow>
             (if SubDomain cfg \<noteq> [] then
                (if subDomainHost g = []
                 then Some ''subdomain is not supported because this feature is not enabled in remote frps''
                 else if Contains (SubDomain cfg) ''.'' \<or> Contains (SubDomain cfg) ''*''
                 then Some (CHR 0x27 # ''.'' @ CHR 0x27 # '' and '' @ CHR 0x27 # ''*'' @ CHR 0x27 # '' is not supported in subdomain'')
                 else None)
              else None)))"

fun CheckForSvr :: "SvrGlobals \<Rightarrow> ProxyConf \<Rightarrow> error option" where
  "CheckForSvr g (Tcp cfg) = None"
| "CheckForSvr g (Udp cfg) = None"
| "CheckForSvr g (Http cfg) =
     (if vhostHttpPort g = 0 then Some ''type [http] not support when vhost_http_port is not set''
      else case DomainConf_checkForSvr g (Http_Domain cfg) of
             Some err \<Rightarrow> Some (''proxy ['' @ ProxyName (Http_Base cfg) @ ''] domain conf check error: '' @ err)
           | None \<Rightarrow> None)"
| "CheckForSvr g (Https cfg) =
     (if vhostHttpsPort g = 0 then Some ''type [https] not support when vhost_https_port is not set''
      else case DomainConf_checkForSvr g (Https_Domain cfg) of
             Some err \<Rightarrow> Some (''proxy ['' @ ProxyName (Https_Base cfg) @ ''] domain conf check error: '' @ err)
           | None \<Rightarrow> None)"
| "CheckForSvr g (Stcp cfg) = None"
| "CheckForSvr g (Xtcp cfg) = None"

text \<open>
  \<^verbatim>\<open>NewProxyConfFromMsg\<close>. The Go function also stores the default type into the caller's
  message; the model returns the configuration or the error.
\<close>

definition type_error :: "string \<Rightarrow> string \<Rightarrow> error" where
  "type_error name proxyType = ''proxy ['' @ name @ ''] type ['' @ proxyType @ ''] error''"

definition NewProxyConfFromMsg :: "SvrGlobals \<Rightarrow> NewProxy \<Rightarrow> error + ProxyConf" where
  "NewProxyConfFromMsg g pMsg0 =
     (let pMsg = (if msg_ProxyType pMsg0 = [] then pMsg0\<lparr>msg_ProxyType := TcpProxy\<rparr> else pMsg0)
      in case NewConfByType (msg_ProxyType pMsg) of
           None \<Rightarrow> Inl (type_error (msg_ProxyName pMsg) (msg_ProxyType pMsg))
         | Some cfg0 \<Rightarrow>
             (let cfg = UnmarshalFromMsg pMsg cfg0
              in case CheckForSvr g cfg of
                   Some err \<Rightarrow> Inl err
                 | None \<Rightarrow> Inr cfg))"

subsection \<open>Configurations from an INI section (client side)\<close>

text \<open>
  \<^verbatim>\<open>ini.Section\<close> is \<^verbatim>\<open>map[string]string\<close>. Reading a missing key with \<^verbatim>\<open>section[k]\<close> gives
  the empty string; the two-valued read \<^verbatim>\<open>v, ok := section[k]\<close> is \<open>fmlookup\<close>.
\<close>

type_synonym Section = "(string, string) fmap"

definition sget :: "Section \<Rightarrow> string \<Rightarrow> string" where
  "sget section k = (case fmlookup section k of None \<Rightarrow> [] | Some v \<Rightarrow> v)"

definition LocalSvrConf_UnmarshalFromIni ::
  "string \<Rightarrow> string \<Rightarrow> Section \<Rightarrow> LocalSvrConf \<Rightarrow> error + LocalSvrConf" where
  "LocalSvrConf_UnmarshalFromIni pfx name section cfg0 =
     (let cfg = cfg0\<lparr>Plugin := sget section ''plugin'', PluginParams := fmempty\<rparr>
      in if Plugin cfg \<noteq> [] then
           Inr (cfg\<lparr>PluginParams := fmfilter (\<lambda>k. HasPrefix k ''plugin_'') section\<rparr>)
         else
           (let cfg = cfg\<lparr>LocalIp := (if sget section ''local_ip'' = [] then ''127.0.0.1''
                                       else sget section ''local_ip'')\<rparr>
            in case fmlookup section ''local_port'' of
                 Some tmpStr \<Rightarrow>
                   (case Atoi tmpStr of
                      None \<Rightarrow> Inl (''Parse conf error: proxy ['' @ name @ ''] local_port error'')
                    | Some v \<Rightarrow> Inr (cfg\<lparr>LocalPort := v\<rparr>))
               | None \<Rightarrow> Inl (''Parse conf error: proxy ['' @ name @ ''] local_port not found'')))"

text \<open>One optional integer key of the health check: absent keeps the field, malformed fails.\<close>

definition ini_int ::
  "Section \<Rightarrow> string \<Rightarrow> string \<Rightarrow> int \<Rightarrow> error + int" where
  "ini_int section key name cur =
     (case fmlookup section key of
        None \<Rightarrow> Inr cur
      | Some tmpStr \<Rightarrow>
          (case Atoi tmpStr of
             None \<Rightarrow> Inl (''Parse conf error: proxy ['' @ name @ ''] '' @ key @ '' error'')
           | Some v \<Rightarrow> Inr v))"

definition HealthCheckConf_UnmarshalFromIni ::
  "string \<Rightarrow> string \<Rightarrow> Section \<Rightarrow> HealthCheckConf \<Rightarrow> error + HealthCheckConf" where
  "HealthCheckConf_UnmarshalFromIni pfx name section cfg0 =
     (let cfg = cfg0\<lparr>HealthCheckType := sget section ''health_check_type'',
                      HealthCheckUrl := sget section ''health_check_url''\<rparr>
      in case ini_int section ''health_check_timeout_s'' name (HealthCheckTimeoutS cfg) of
           Inl err \<Rightarrow> Inl err
         | Inr t \<Rightarrow>
          (case ini_int section ''health_check_max_failed'' name (HealthCheckMaxFailed cfg) of
             Inl err \<Rightarrow> Inl err
           | Inr m \<Rightarrow>
            (case ini_int section ''health_check_interval_s'' name (HealthCheckIntervalS cfg) of
               Inl err \<Rightarrow> Inl err
             | Inr i \<Rightarrow>
                 Inr (cfg\<lparr>HealthCheckTimeoutS := t, HealthCheckMaxFailed := m,
                          HealthCheckIntervalS := i\<rparr>))))"

definition health_check_fixup :: "BaseProxyConf \<Rightarrow> BaseProxyConf" where
  "health_check_fixup cfg0 =
     (let l = LocalSvr cfg0;
          cfg = (if HealthCheckType (HealthCheck cfg0) = ''tcp'' \<and> Plugin l = []
                 then cfg0\<lparr>HealthCheck := (HealthCheck cfg0)
                        \<lparr>HealthCheckAddr := LocalIp l @ '':'' @ Sprintf_d (LocalPort l)\<rparr>\<rparr>
                 else cfg0);
          h = HealthCheck cfg
      in if HealthCheckType h = ''http'' \<and> Plugin l = [] \<and> HealthCheckUrl h \<noteq> []
         then (let s0 = ''http://'' @ LocalIp l @ '':'' @ Sprintf_d (LocalPort l);
                   s = (if \<not> HasPrefix (HealthCheckUrl h) ''/'' then s0 @ ''/'' else s0)
               in cfg\<lparr>HealthCheck := h\<lparr>HealthCheckUrl := s @ HealthCheckUrl h\<rparr>\<rparr>)
         else cfg)"

definition BaseProxyConf_UnmarshalFromIni ::
  "string \<Rightarrow> string \<Rightarrow> Section \<Rightarrow> BaseProxyConf \<Rightarrow> error + BaseProxyConf" where
  "BaseProxyConf_UnmarshalFromIni pfx name section cfg0 =
     (let cfg1 = cfg0\<lparr>ProxyName := pfx @ name, ProxyType := sget section ''type''\<rparr>;
          cfg2 = (if fmlookup section ''use_encryption'' = Some ''true''
                  then cfg1\<lparr>UseEncryption := True\<rparr> else cfg1);
          cfg3 = (if fmlookup section ''use_compression'' = Some ''true''
                  then cfg2\<lparr>UseCompression := True\<rparr> else cfg2);
          cfg = cfg3\<lparr>Group := sget section ''group'',
                     GroupKey := sget section ''group_key'',
                     ProxyProtocolVersion := sget section ''proxy_protocol_version''\<rparr>
      in case LocalSvrConf_UnmarshalFromIni pfx name section (LocalSvr cfg) of
           Inl err \<Rightarrow> Inl err
         | Inr l \<Rightarrow>
          (case HealthCheckConf_UnmarshalFromIni pfx name section (HealthCheck cfg) of
             Inl err \<Rightarrow> Inl err
           | Inr h \<Rightarrow> Inr (health_check_fixup (cfg\<lparr>LocalSvr := l, HealthCheck := h\<rparr>))))"

definition BindInfoConf_UnmarshalFromIni ::
  "string \<Rightarrow> string \<Rightarrow> Section \<Rightarrow> BindInfoConf \<Rightarrow> error + BindInfoConf" where
  "BindInfoConf_UnmarshalFromIni pfx name section cfg =
     (case fmlookup section ''remote_port'' of
        Some tmpStr \<Rightarrow>
          (case ParseInt64 tmpStr of
             None \<Rightarrow> Inl (''Parse conf error: proxy ['' @ name @ ''] remote_port error'')
           | Some v \<Rightarrow> Inr (cfg\<lparr>RemotePort := v\<rparr>))
      | None \<Rightarrow> Inl (''Parse conf error: proxy ['' @ name @ ''] remote_port not found''))"

definition DomainConf_UnmarshalFromIni ::
  "string \<Rightarrow> string \<Rightarrow> Section \<Rightarrow> DomainConf \<Rightarrow> error + DomainConf" where
  "DomainConf_UnmarshalFromIni pfx name section cfg0 =
     (let cfg = (case fmlookup section ''custom_domains'' of
                   Some tmpStr \<Rightarrow>
                     cfg0\<lparr>CustomDomains := map (\<lambda>domain. ToLower (TrimSpace domain)) (Split tmpStr '','')\<rparr>
                 | None \<Rightarrow> cfg0)
      in case fmlookup section ''subdomain'' of
           Some tmpStr \<Rightarrow> Inr (cfg\<lparr>SubDomain := tmpStr\<rparr>)
         | None \<Rightarrow> Inr cfg)"

text \<open>
  The loop that collects the keys \<^verbatim>\<open>header_*\<close> of the section into \<^verbatim>\<open>cfg.Headers\<close>
  under the key without its prefix: the header \<open>h\<close> has the value of the key
  \<open>header_h\<close>.
\<close>

definition header_map :: "Section \<Rightarrow> (string, string) fmap" where
  "header_map section = Abs_fmap (\<lambda>h. fmlookup section (''header_'' @ h))"

definition role_error :: "string \<Rightarrow> string \<Rightarrow> error" where
  "role_error name role = ''Parse conf error: proxy ['' @ name @ ''] incorrect role ['' @ role @ '']''"

fun UnmarshalFromIni :: "string \<Rightarrow> string \<Rightarrow> Section \<Rightarrow> ProxyConf \<Rightarrow> error + ProxyConf" where
  "UnmarshalFromIni pfx name section (Tcp cfg) =
     (case BaseProxyConf_UnmarshalFromIni pfx name section (Tcp_Base cfg) of
        Inl err \<Rightarrow> Inl err
      | Inr b \<Rightarrow>
         (case BindInfoConf_UnmarshalFromIni pfx name section (Tcp_BindInfo cfg) of
            Inl err \<Rightarrow> Inl err
          | Inr bi \<Rightarrow> Inr (Tcp (cfg\<lparr>Tcp_Base := b, Tcp_BindInfo := bi\<rparr>))))"
| "UnmarshalFromIni pfx name section (Udp cfg) =
     (case BaseProxyConf_UnmarshalFromIni pfx name section (Udp_Base cfg) of
        Inl err \<Rightarrow> Inl err
      | Inr b \<Rightarrow>
         (case BindInfoConf_UnmarshalFromIni pfx name section (Udp_BindInfo cfg) of
            Inl err \<Rightarrow> Inl err
          | Inr bi \<Rightarrow> Inr (Udp (cfg\<lparr>Udp_Base := b, Udp_BindInfo := bi\<rparr>))))"
| "UnmarshalFromIni pfx name section (Http cfg) =
     (case BaseProxyConf_UnmarshalFromIni pfx name section (Http_Base cfg) of
        Inl err \<Rightarrow> Inl err
      | Inr b \<Rightarrow>
         (case DomainConf_UnmarshalFromIni pfx name section (Http_Domain cfg) of
            Inl err \<Rightarrow> Inl err
          | Inr d \<Rightarrow>
              Inr (Http (cfg\<lparr>Http_Base := b, Http_Domain := d,
                     Locations := (case fmlookup section ''locations'' of
                                     Some tmpStr \<Rightarrow> Split tmpStr '',''
                                   | None \<Rightarrow> [[]]),
                     HostHeaderRewrite := sget section ''host_header_rewrite'',
                     HttpUser := sget section ''http_user'',
                     HttpPwd := sget section ''http_pwd'',
                     Headers := header_map section\<rparr>))))"
| "UnmarshalFromIni pfx name section (Https cfg) =
     (case BaseProxyConf_UnmarshalFromIni pfx name section (Https_Base cfg) of
        Inl err \<Rightarrow> Inl err
      | Inr b \<Rightarrow>
         (case DomainConf_UnmarshalFromIni pfx name section (Https_Domain cfg) of
            Inl err \<Rightarrow> Inl err
          | Inr d \<Rightarrow> Inr (Https (cfg\<lparr>Https_Base := b, Https_Domain := d\<rparr>))))"
| "UnmarshalFromIni pfx name section (Stcp cfg) =
     (case BaseProxyConf_UnmarshalFromIni pfx name section (Stcp_Base cfg) of
        Inl err \<Rightarrow> Inl err
      | Inr b \<Rightarrow>
         (let role = sget section ''role''
          in if role \<noteq> ''server'' then Inl (role_error name role)
             else case LocalSvrConf_UnmarshalFromIni pfx name section (LocalSvr b) of
                    Inl err \<Rightarrow> Inl err
                  | Inr l \<Rightarrow>
                      Inr (Stcp (cfg\<lparr>Stcp_Base := b\<lparr>LocalSvr := l\<rparr>, Stcp_Role := role,
                                     Stcp_Sk := sget section ''sk''\<rparr>))))"
| "UnmarshalFromIni pfx name section (Xtcp cfg) =
     (case BaseProxyConf_UnmarshalFromIni pfx name section (Xtcp_Base cfg) of
        Inl err \<Rightarrow> Inl err
      | Inr b \<Rightarrow>
         (let role = sget section ''role''
          in if role \<noteq> ''server'' then Inl (role_error name role)
             else case LocalSvrConf_UnmarshalFromIni pfx name section (LocalSvr b) of
                    Inl err \<Rightarrow> Inl err
                  | Inr l \<Rightarrow>
                      Inr (Xtcp (cfg\<lparr>Xtcp_Base := b\<lparr>LocalSvr := l\<rparr>, Xtcp_Role := role,
                                     Xtcp_Sk := sget section ''sk''\<rparr>))))"

definition LocalSvrConf_checkForCli :: "LocalSvrConf \<Rightarrow> error option" where
  "LocalSvrConf_checkForCli cfg =
     (if Plugin cfg = [] then
        (if LocalIp cfg = [] then Some ''local ip or plugin is required''
         else if LocalPort cfg \<le> 0 then Some ''error local_port''
         else None)
      else None)"

definition HealthCheckConf_checkForCli :: "HealthCheckConf \<Rightarrow> error option" where
  "HealthCheckConf_checkForCli cfg =
     (if HealthCheckType cfg \<noteq> [] \<and> HealthCheckType cfg \<noteq> ''tcp'' \<and> HealthCheckType cfg \<noteq> ''http''
      then Some ''unsupport health check type''
      else if HealthCheckType cfg \<noteq> [] \<and> HealthCheckType cfg = ''http'' \<and> HealthCheckUrl cfg = []
      then Some (''health_check_url is required for health check type '' @ CHR 0x27 # ''http'' @ [CHR 0x27])
      else None)"

definition BaseProxyConf_checkForCli :: "BaseProxyConf \<Rightarrow> error option" where
  "BaseProxyConf_checkForCli cfg =
     (if ProxyProtocolVersion cfg \<noteq> [] \<and>
         ProxyProtocolVersion cfg \<noteq> ''v1'' \<and> ProxyProtocolVersion cfg \<noteq> ''v2''
      then Some (''no support proxy protocol version: '' @ ProxyProtocolVersion cfg)
      else case LocalSvrConf_checkForCli (LocalSvr cfg) of
             Some err \<Rightarrow> Some err
           | None \<Rightarrow> HealthCheckConf_checkForCli (HealthCheck cfg))"

definition role_check :: "string \<Rightarrow> error option" where
  "role_check role = (if role \<noteq> ''server'' then Some (''role should be '' @ CHR 0x27 # ''server'' @ [CHR 0x27]) else None)"

fun CheckForCli :: "ProxyConf \<Rightarrow> error option" where
  "CheckForCli (Tcp cfg) = BaseProxyConf_checkForCli (Tcp_Base cfg)"
| "CheckForCli (Udp cfg) = BaseProxyConf_checkForCli (Udp_Base cfg)"
| "CheckForCli (Http cfg) =
     (case BaseProxyConf_checkForCli (Http_Base cfg) of
        Some err \<Rightarrow> Some err
      | None \<Rightarrow> DomainConf_check (Http_Domain cfg))"
| "CheckForCli (Https cfg) =
     (case BaseProxyConf_checkForCli (Https_Base cfg) of
        Some err \<Rightarrow> Some err
      | None \<Rightarrow> DomainConf_check (Https_Domain cfg))"
| "CheckForCli (Stcp cfg) =
     (case BaseProxyConf_checkForCli (Stcp_Base cfg) of
        Some err \<Rightarrow> Some err
      | None \<Rightarrow> role_check (Stcp_Role cfg))"
| "CheckForCli (Xtcp cfg) =
     (case BaseProxyConf_checkForCli (Xtcp_Base cfg) of
        Some err \<Rightarrow> Some err
      | None \<Rightarrow> role_check (Xtcp_Role cfg))"

text \<open>
  \<^verbatim>\<open>NewProxyConfFromIni\<close>. With an empty type the section itself receives
  \<^verbatim>\<open>section["type"] = "tcp"\<close> before it is unmarshalled.
\<close>

definition NewProxyConfFromIni :: "string \<Rightarrow> string \<Rightarrow> Section \<Rightarrow> error + ProxyConf" where
  "NewProxyConfFromIni pfx name section0 =
     (let (proxyType, section) =
            (if sget section0 ''type'' = [] then (TcpProxy, fmupd ''type'' TcpProxy section0)
             else (sget section0 ''type'', section0))
      in case NewConfByType proxyType of
           None \<Rightarrow> Inl (type_error name proxyType)
         | Some cfg0 \<Rightarrow>
            (case UnmarshalFromIni pfx name section cfg0 of
               Inl err \<Rightarrow> Inl err
             | Inr cfg \<Rightarrow>
                (case CheckForCli cfg of
                   Some err \<Rightarrow> Inl err
                 | None \<Rightarrow> Inr cfg)))"

subsection \<open>Range sections\<close>

text \<open>
  \<^verbatim>\<open>util.ParseRangeNumbers\<close> is not among the sources: it is the parameter \<open>prn\<close>, any
  function from the text of a port list to an error or the list of its numbers.
  \<^verbatim>\<open>copySection\<close> copies the map, so each sub-section is the section with its two port
  keys overwritten. The result map is filled in index order; the read
  \<^verbatim>\<open>remotePorts[i]\<close> panics when \<open>i\<close> is out of range (\<open>None\<close> in the loop).
\<close>

definition sub_name :: "string \<Rightarrow> nat \<Rightarrow> string" where
  "sub_name name i = name @ ''_'' @ Sprintf_d (int i)"

definition sub_section :: "Section \<Rightarrow> int \<Rightarrow> int \<Rightarrow> Section" where
  "sub_section section lport rport =
     fmupd ''remote_port'' (Sprintf_d rport) (fmupd ''local_port'' (Sprintf_d lport) section)"

fun range_loop ::
  "string \<Rightarrow> Section \<Rightarrow> int list \<Rightarrow> nat \<Rightarrow> int list \<Rightarrow> (string, Section) fmap
     \<Rightarrow> (string, Section) fmap option" where
  "range_loop name section remotePorts i [] sections = Some sections"
| "range_loop name section remotePorts i (port # rest) sections =
     (if i < length remotePorts then
        range_loop name section remotePorts (Suc i) rest
          (fmupd (sub_name name i) (sub_section section port (remotePorts ! i)) sections)
      else None)"

definition ParseRangeSection ::
  "(string \<Rightarrow> error + int list) \<Rightarrow> string \<Rightarrow> Section \<Rightarrow> error + (string, Section) fmap" where
  "ParseRangeSection prn name section =
     (case prn (sget section ''local_port'') of
        Inl errRet \<Rightarrow>
          Inl (''Parse conf error: range section ['' @ name @ ''] local_port invalid, '' @ errRet)
      | Inr localPorts \<Rightarrow>
         (case prn (sget section ''remote_port'') of
            Inl errRet \<Rightarrow>
              Inl (''Parse conf error: range section ['' @ name @ ''] remote_port invalid, '' @ errRet)
          | Inr remotePorts \<Rightarrow>
             (if length localPorts \<noteq> length remotePorts then
                Inl (''Parse conf error: range section ['' @ name @
                     ''] local ports number should be same with remote ports number'')
              else if length localPorts = 0 then
                Inl (''Parse conf error: range section ['' @ name @
                     ''] local_port and remote_port is necessary'')
              else case range_loop name section remotePorts 0 localPorts fmempty of
                     None \<Rightarrow> Inl ''panic: runtime error: index out of range''
                   | Some sections \<Rightarrow> Inr sections)))"

section \<open>server/proxy: the proxy manager\<close>


text \<open>
  \<^verbatim>\<open>type ProxyManager struct { pxys map[string]Proxy; mu sync.RWMutex }\<close>.
  The proxy is opaque here (type variable); the mutex makes each method atomic, so a
  method is one state transition.
\<close>

record 'p ProxyManager =
  pxys :: "string \<rightharpoonup> 'p"

definition NewProxyManager :: "'p ProxyManager" where
  "NewProxyManager = \<lparr>pxys = Map.empty\<rparr>"

definition ProxyManager_Add :: "string \<Rightarrow> 'p \<Rightarrow> 'p ProxyManager \<Rightarrow> error option \<times> 'p ProxyManager" where
  "ProxyManager_Add name pxy pm =
     (case pxys pm name of
        Some _ \<Rightarrow> (Some (''proxy name ['' @ name @ ''] is already in use''), pm)
      | None \<Rightarrow> (None, pm\<lparr>pxys := (pxys pm)(name \<mapsto> pxy)\<rparr>))"

definition ProxyManager_Del :: "string \<Rightarrow> 'p ProxyManager \<Rightarrow> 'p ProxyManager" where
  "ProxyManager_Del name pm = pm\<lparr>pxys := (pxys pm)(name := None)\<rparr>"

definition ProxyManager_GetByName :: "string \<Rightarrow> 'p ProxyManager \<Rightarrow> 'p option" where
  "ProxyManager_GetByName name pm = pxys pm name"

section \<open>client/proxy: the client's proxies\<close>

subsection \<open>UdpProxy.Close\<close>

text \<open>
  The fields of the client's \<^verbatim>\<open>UdpProxy\<close> that \<^verbatim>\<open>Close\<close> touches, together with the state
  of the objects they refer to: \<open>None\<close> is a \<^verbatim>\<open>nil\<close> field. Closing a connection again only
  returns an error, which the code ignores; \<^verbatim>\<open>close\<close> on a closed channel panics. The
  mutex makes \<^verbatim>\<open>Close\<close> one atomic transition.
\<close>

datatype chan = ChanOpen | ChanClosed

datatype net_conn = ConnOpen | ConnClosed

record ClientUdpProxy =
  closed :: bool
  workConn :: "net_conn option"
  readCh :: "chan option"
  sendCh :: "chan option"

definition close_panic :: error where
  "close_panic = ''panic: close of closed channel''"

definition UdpProxy_Close :: "ClientUdpProxy \<Rightarrow> error + ClientUdpProxy" where
  "UdpProxy_Close pxy =
     (if \<not> closed pxy then
        (let pxy1 = pxy\<lparr>closed := True\<rparr>;
             pxy2 = (case workConn pxy1 of
                       None \<Rightarrow> pxy1
                     | Some c \<Rightarrow> pxy1\<lparr>workConn := Some ConnClosed\<rparr>)
         in case readCh pxy2 of
              Some ChanClosed \<Rightarrow> Inl close_panic
            | r \<Rightarrow>
               (let pxy3 = pxy2\<lparr>readCh := map_option (\<lambda>c. ChanClosed) r\<rparr>
                in case sendCh pxy3 of
                     Some ChanClosed \<Rightarrow> Inl close_panic
                   | s \<Rightarrow> Inr (pxy3\<lparr>sendCh := map_option (\<lambda>c. ChanClosed) s\<rparr>)))
      else Inr pxy)"

text \<open>
  The proxy as \<^verbatim>\<open>NewProxy\<close> creates it, and the start of \<^verbatim>\<open>InWorkConn\<close>: close what
  belongs to the old work connection, then install the new connection and two fresh
  channels and clear the flag.
\<close>

definition UdpProxy_new :: ClientUdpProxy where
  "UdpProxy_new = \<lparr>closed = False, workConn = None, readCh = None, sendCh = None\<rparr>"

definition UdpProxy_InWorkConn :: "ClientUdpProxy \<Rightarrow> error + ClientUdpProxy" where
  "UdpProxy_InWorkConn pxy =
     (case UdpProxy_Close pxy of
        Inl p \<Rightarrow> Inl p
      | Inr pxy' \<Rightarrow>
          Inr (pxy'\<lparr>workConn := Some ConnOpen, readCh := Some ChanOpen,
                    sendCh := Some ChanOpen, closed := False\<rparr>))"

text \<open>
  A channel of an open proxy is never a closed one: this holds of a new proxy and is kept
  by \<^verbatim>\<open>Close\<close> and \<^verbatim>\<open>InWorkConn\<close>, the only code that assigns or closes the channels.
\<close>

definition chans_ok :: "ClientUdpProxy \<Rightarrow> bool" where
  "chans_ok pxy = (closed pxy \<or> (readCh pxy \<noteq> Some ChanClosed \<and> sendCh pxy \<noteq> Some ChanClosed))"

subsection \<open>HandleTcpWorkConnection: the PROXY-protocol header\<close>

text \<open>
  \<^verbatim>\<open>net.IP\<close> is a byte slice; \<^verbatim>\<open>nil\<close> is \<open>[]\<close>. \<^verbatim>\<open>To16\<close> as in Go's \<^verbatim>\<open>net\<close> package: a
  4-byte address is converted to the 16-byte form, a 16-byte address is returned as it
  is, anything else gives \<^verbatim>\<open>nil\<close>. \<^verbatim>\<open>ParseIP\<close> dispatches on the first dot or colon of the
  text: a dotted address must be four decimal fields of at most 255 each and is
  returned in the 16-byte form; the IPv6 parser is the parameter \<open>parseIPv6\<close>.
\<close>

type_synonym byte = "8 word"
type_synonym IP = "byte list"

definition v4InV6Prefix :: IP where
  "v4InV6Prefix = [0, 0, 0, 0, 0, 0, 0, 0, 0, 0, 0xff, 0xff]"

definition IPv4 :: "byte \<Rightarrow> byte \<Rightarrow> byte \<Rightarrow> byte \<Rightarrow> IP" where
  "IPv4 a b c d = v4InV6Prefix @ [a, b, c, d]"

definition To16 :: "IP \<Rightarrow> IP" where
  "To16 ip =
     (if length ip = 4 then IPv4 (ip ! 0) (ip ! 1) (ip ! 2) (ip ! 3)
      else if length ip = 16 then ip
      else [])"

definition ipv4_field :: "string \<Rightarrow> byte option" where
  "ipv4_field f =
     (if f = [] then None
      else case parse_digits 0 f of
             None \<Rightarrow> None
           | Some n \<Rightarrow> if n > 255 then None else Some (of_nat n))"

definition parseIPv4 :: "string \<Rightarrow> IP" where
  "parseIPv4 s =
     (case map ipv4_field (Split s ''.'') of
        [Some a, Some b, Some c, Some d] \<Rightarrow> IPv4 a b c d
      | _ \<Rightarrow> [])"

fun ParseIP_scan :: "(string \<Rightarrow> IP) \<Rightarrow> string \<Rightarrow> string \<Rightarrow> IP" where
  "ParseIP_scan parseIPv6 s [] = []"
| "ParseIP_scan parseIPv6 s (c # cs) =
     (if c = CHR ''.'' then parseIPv4 s
      else if c = CHR '':'' then parseIPv6 s
      else ParseIP_scan parseIPv6 s cs)"

definition ParseIP :: "(string \<Rightarrow> IP) \<Rightarrow> string \<Rightarrow> IP" where
  "ParseIP parseIPv6 s = ParseIP_scan parseIPv6 s s"

text \<open>
  The fields of \<^verbatim>\<open>msg.StartWorkConn\<close> and of the header \<^verbatim>\<open>pp.Header\<close> of the
  proxy-protocol library that the handler reads and writes. The zero value of the
  transport protocol is \<^verbatim>\<open>UNSPEC\<close>.
\<close>

record StartWorkConn =
  swc_ProxyName :: string
  SrcAddr :: string
  DstAddr :: string
  SrcPort :: "16 word"
  DstPort :: "16 word"

datatype ProtocolVersionAndCommand = LOCAL | PROXY

datatype AddressFamilyAndProtocol = UNSPEC | TCPv4 | TCPv6

record Header =
  Version :: byte
  Command :: ProtocolVersionAndCommand
  TransportProtocol :: AddressFamilyAndProtocol
  SourceAddress :: IP
  DestinationAddress :: IP
  SourcePort :: "16 word"
  DestinationPort :: "16 word"

text \<open>
  The block "check if we need to send proxy protocol info": the header that is built, or
  \<open>None\<close> when none is built.
\<close>

definition proxy_protocol_header ::
  "(string \<Rightarrow> IP) \<Rightarrow> BaseProxyConf \<Rightarrow> StartWorkConn \<Rightarrow> Header option" where
  "proxy_protocol_header parseIPv6 baseInfo m0 =
     (if ProxyProtocolVersion baseInfo \<noteq> [] then
        (if SrcAddr m0 \<noteq> [] \<and> SrcPort m0 \<noteq> 0 then
           (let m = (if DstAddr m0 = [] then m0\<lparr>DstAddr := ''127.0.0.1''\<rparr> else m0);
                h0 = \<lparr>Version = 0, Command = PROXY, TransportProtocol = UNSPEC,
                      SourceAddress = ParseIP parseIPv6 (SrcAddr m),
                      DestinationAddress = ParseIP parseIPv6 (DstAddr m),
                      SourcePort = SrcPort m, DestinationPort = DstPort m\<rparr>;
                h1 = (if To16 (SourceAddress h0) = [] then h0\<lparr>TransportProtocol := TCPv4\<rparr>
                      else h0\<lparr>TransportProtocol := TCPv6\<rparr>);
                h = (if ProxyProtocolVersion baseInfo = ''v1'' then h1\<lparr>Version := 1\<rparr>
                     else if ProxyProtocolVersion baseInfo = ''v2'' then h1\<lparr>Version := 2\<rparr>
                     else h1)
            in Some h)
         else None)
      else None)"

text \<open>
  The handler itself, as the list of what it does to the connections. The outcomes of
  the calls into other packages are parameters: whether wrapping with encryption fails,
  whether a plugin is set, whether the local service can be reached, and the bytes
  that the library's \<^verbatim>\<open>WriteTo\<close> produces for a header.
\<close>

datatype work_action =
  WorkConnClose
| PluginHandle "byte list"
| LocalWrite "byte list"
| JoinConns

record handler_env =
  encryption_fails :: bool
  plugin_set :: bool
  connect_fails :: bool
  WriteTo :: "Header \<Rightarrow> byte list"
  env_parseIPv6 :: "string \<Rightarrow> IP"

definition HandleTcpWorkConnection ::
  "handler_env \<Rightarrow> BaseProxyConf \<Rightarrow> StartWorkConn \<Rightarrow> work_action list" where
  "HandleTcpWorkConnection env baseInfo m =
     (if UseEncryption baseInfo \<and> encryption_fails env then [WorkConnClose]
      else
        (let extraInfo = (case proxy_protocol_header (env_parseIPv6 env) baseInfo m of
                            None \<Rightarrow> []
                          | Some h \<Rightarrow> WriteTo env h)
         in if plugin_set env then [PluginHandle extraInfo]
            else if connect_fails env then [WorkConnClose]
            else (if length extraInfo > 0 then [LocalWrite extraInfo] else []) @ [JoinConns]))"

section \<open>client: the control connection's message handler\<close>

text \<open>
  \<^verbatim>\<open>Control.msgHandler\<close>. Each iteration of the loop handles one outcome of the
  \<^verbatim>\<open>select\<close>: a tick of the heartbeat ticker, a tick of the one-second check ticker
  (with the clock reading at that moment), or a receive from \<^verbatim>\<open>readCh\<close> (\<open>None\<close> when
  the channel is closed; the clock reading is used by the Pong case). Times are
  nanoseconds as in \<^verbatim>\<open>time.Duration\<close>, a signed 64-bit number: \<^verbatim>\<open>time.Since\<close> saturates
  at the ends of the range and the product with \<^verbatim>\<open>time.Second\<close> wraps. The messages
  put on \<^verbatim>\<open>sendCh\<close> are collected in a list (a send that finds the buffer full waits for
  the writer; an iteration is one that completes).
\<close>

datatype ctl_msg = ReqWorkConn | NewProxyResp string string string | Pong | Ping | OtherMsg

datatype select_event =
  HbSend
| HbCheck int
| ReadCh "ctl_msg option" int

datatype handler_status = Running | Exited

record ClientControl =
  lastPong :: int
  conn_closed :: bool
  ctl_sendCh :: "ctl_msg list"
  reqWorkConn_spawned :: nat
  newProxyResp_handled :: "(string \<times> string \<times> string) list"

definition Second :: int where
  "Second = 1000000000"

definition wrap64 :: "int \<Rightarrow> int" where
  "wrap64 i = sint (word_of_int i :: 64 word)"

definition Since :: "int \<Rightarrow> int \<Rightarrow> int" where
  "Since now t = max (- (2 ^ 63)) (min (2 ^ 63 - 1) (now - t))"

definition heartbeat_timed_out :: "int \<Rightarrow> ClientControl \<Rightarrow> int \<Rightarrow> bool" where
  "heartbeat_timed_out HeartBeatTimeout ctl now =
     (Since now (lastPong ctl) > wrap64 (HeartBeatTimeout * Second))"

fun msgHandler_loop ::
  "int \<Rightarrow> ClientControl \<Rightarrow> select_event list \<Rightarrow> ClientControl \<times> handler_status" where
  "msgHandler_loop HeartBeatTimeout ctl [] = (ctl, Running)"
| "msgHandler_loop HeartBeatTimeout ctl (HbSend # es) =
     msgHandler_loop HeartBeatTimeout (ctl\<lparr>ctl_sendCh := ctl_sendCh ctl @ [Ping]\<rparr>) es"
| "msgHandler_loop HeartBeatTimeout ctl (HbCheck now # es) =
     (if heartbeat_timed_out HeartBeatTimeout ctl now
      then (ctl\<lparr>conn_closed := True\<rparr>, Exited)
      else msgHandler_loop HeartBeatTimeout ctl es)"
| "msgHandler_loop HeartBeatTimeout ctl (ReadCh None now # es) = (ctl, Exited)"
| "msgHandler_loop HeartBeatTimeout ctl (ReadCh (Some rawMsg) now # es) =
     (case rawMsg of
        ReqWorkConn \<Rightarrow>
          msgHandler_loop HeartBeatTimeout
            (ctl\<lparr>reqWorkConn_spawned := Suc (reqWorkConn_spawned ctl)\<rparr>) es
      | NewProxyResp name addr err \<Rightarrow>
          msgHandler_loop HeartBeatTimeout
            (ctl\<lparr>newProxyResp_handled := newProxyResp_handled ctl @ [(name, addr, err)]\<rparr>) es
      | Pong \<Rightarrow> msgHandler_loop HeartBeatTimeout (ctl\<lparr>lastPong := now\<rparr>) es
      | _ \<Rightarrow> msgHandler_loop HeartBeatTimeout ctl es)"

text \<open>
  The handler first creates its two tickers. \<^verbatim>\<open>time.NewTicker\<close> panics on a duration
  that is not positive; the deferred \<^verbatim>\<open>recover\<close> catches the panic and the handler
  returns without entering the loop. The period of the check ticker is one second;
  the period of the heartbeat ticker is \<^verbatim>\<open>HeartBeatInterval\<close> seconds, a 64-bit product.
  Then the handler sets \<^verbatim>\<open>lastPong\<close> to the clock reading \<open>now0\<close> and enters the loop.
\<close>

definition msgHandler ::
  "int \<Rightarrow> int \<Rightarrow> int \<Rightarrow> ClientControl \<Rightarrow> select_event list \<Rightarrow> ClientControl \<times> handler_status" where
  "msgHandler HeartBeatTimeout HeartBeatInterval now0 ctl es =
     (if wrap64 (HeartBeatInterval * Second) \<le> 0 then (ctl, Exited)
      else msgHandler_loop HeartBeatTimeout (ctl\<lparr>lastPong := now0\<rparr>) es)"

section \<open>server: login and the control manager\<close>

text \<open>
  The fields of \<^verbatim>\<open>msg.Login\<close> that \<^verbatim>\<open>RegisterControl\<close> reads. The server configuration
  \<^verbatim>\<open>g.GlbServerCfg\<close>, the clock and the functions of packages that are not among the
  sources (\<^verbatim>\<open>version.Compat\<close>, \<^verbatim>\<open>version.Full\<close>, \<^verbatim>\<open>util.GetAuthKey\<close>, \<^verbatim>\<open>util.RandId\<close> and
  the client of the token-validation API) are the fields of the environment; the
  random identifier is the outcome of the one call of \<^verbatim>\<open>RandId\<close>.
\<close>

record Login =
  login_Version :: string
  login_Hostname :: string
  login_Os :: string
  login_Arch :: string
  login_User :: string
  login_PrivilegeKey :: string
  login_Timestamp :: int
  login_RunId :: string

record server_env =
  Token :: string
  EnableApi :: bool
  ApiBaseUrl :: string
  ApiToken :: string
  version_Compat :: "string \<Rightarrow> bool \<times> string"
  version_Full :: string
  GetAuthKey :: "string \<Rightarrow> int \<Rightarrow> string"
  RandId :: "error + string"
  api_NewService :: "string \<Rightarrow> error option"
  api_CheckToken :: "string \<Rightarrow> string \<Rightarrow> int \<Rightarrow> string \<Rightarrow> error + bool"
  api_GetProxyLimit :: "string \<Rightarrow> int \<Rightarrow> string \<Rightarrow> error + (64 word \<times> 64 word)"
  time_Now_Unix :: int

text \<open>
  Modelled from the spec: \<^verbatim>\<open>Control\<close> and \<^verbatim>\<open>NewControl\<close> of the server are not among
  the sources. By the spec a control session is keyed by its \<open>run_id\<close> and holds the
  control socket and the per-direction byte limits. A control has the identity of its
  allocation (\<open>ctl_id\<close>).
\<close>

record Control =
  ctl_id :: nat
  ctl_runId :: string
  ctl_conn :: nat
  ctl_loginMsg :: Login
  ctl_inLimit :: "64 word"
  ctl_outLimit :: "64 word"

definition NewControl :: "nat \<Rightarrow> nat \<Rightarrow> Login \<Rightarrow> 64 word \<Rightarrow> 64 word \<Rightarrow> Control" where
  "NewControl i ctlConn loginMsg inLimit outLimit =
     \<lparr>ctl_id = i, ctl_runId = login_RunId loginMsg, ctl_conn = ctlConn,
      ctl_loginMsg = loginMsg, ctl_inLimit = inLimit, ctl_outLimit = outLimit\<rparr>"

text \<open>
  What the server does, in order: the effects on control sessions, on the manager and
  on the connection.
\<close>

datatype server_effect =
  ShutdownStart nat
| Installed string nat
| ShutdownWaitDone nat
| ControlStart nat
| StatsNewClient
| WriteLoginResp nat string string
| ConnClose nat

record ControlManager =
  ctlsByRunId :: "string \<rightharpoonup> Control"

text \<open>
  Modelled from the spec: \<^verbatim>\<open>ControlManager\<close> and its method \<^verbatim>\<open>Add\<close> are not among the
  sources; only the call \<^verbatim>\<open>svr.ctlManager.Add(loginMsg.RunId, ctl)\<close> is, which uses the
  result as the previous session of that run id. The spec: the manager keeps at most
  one control session per \<open>run_id\<close>, and "if a prior session exists with the same
  \<open>run_id\<close>, start its shutdown and wait for completion before installing the new one".
  So \<^verbatim>\<open>Add\<close> starts the shutdown of a prior session, waits until it has completed, then
  stores the new session under the run id, and returns the prior session.
\<close>

definition ControlManager_Add ::
  "string \<Rightarrow> Control \<Rightarrow> ControlManager \<Rightarrow> Control option \<times> ControlManager \<times> server_effect list" where
  "ControlManager_Add runId ctl cm =
     (let oldCtl = ctlsByRunId cm runId
      in (oldCtl,
          cm\<lparr>ctlsByRunId := (ctlsByRunId cm)(runId \<mapsto> ctl)\<rparr>,
          (case oldCtl of
             None \<Rightarrow> []
           | Some old \<Rightarrow> [ShutdownStart (ctl_id old), ShutdownWaitDone (ctl_id old)])
            @ [Installed runId (ctl_id ctl)]))"

record Service =
  ctlManager :: ControlManager
  next_ctl :: nat

text \<open>The user name test \<^verbatim>\<open>^[A-Za-z0-9]{1,32}$\<close> of the API branch.\<close>

definition is_alnum :: "char \<Rightarrow> bool" where
  "is_alnum c =
     (let n = (of_char c :: nat)
      in (48 \<le> n \<and> n \<le> 57) \<or> (65 \<le> n \<and> n \<le> 90) \<or> (97 \<le> n \<and> n \<le> 122))"

definition valid_username :: "string \<Rightarrow> bool" where
  "valid_username u = (1 \<le> length u \<and> length u \<le> 32 \<and> list_all is_alnum u)"

text \<open>
  \<^verbatim>\<open>RegisterControl\<close> up to the creation of the control: the version check, the key
  check and, when enabled, the API checks, which also give the byte limits.
\<close>

definition login_checks :: "server_env \<Rightarrow> Login \<Rightarrow> error + (64 word \<times> 64 word)" where
  "login_checks env loginMsg =
     (case version_Compat env (login_Version loginMsg) of
        (ok, msg) \<Rightarrow>
          if \<not> ok then Inl msg
          else if GetAuthKey env (Token env) (login_Timestamp loginMsg) \<noteq> login_PrivilegeKey loginMsg
            then Inl ''authorization failed''
          else if EnableApi env then
            (let nowTime = time_Now_Unix env
             in case api_NewService env (ApiBaseUrl env) of
                  Some err \<Rightarrow> Inl err
                | None \<Rightarrow>
                   (if \<not> valid_username (login_User loginMsg) then Inl ''invalid username''
                    else case api_CheckToken env (login_User loginMsg) (login_PrivilegeKey loginMsg)
                                nowTime (ApiToken env) of
                           Inl err \<Rightarrow> Inl err
                         | Inr valid \<Rightarrow>
                            (if \<not> valid then Inl ''authorization failed''
                             else api_GetProxyLimit env (login_User loginMsg) nowTime (ApiToken env))))
          else Inr (0, 0))"

text \<open>The run id: a client that sends none is given \<open>User-randid\<close>.\<close>

definition assign_run_id :: "server_env \<Rightarrow> Login \<Rightarrow> error + Login" where
  "assign_run_id env loginMsg =
     (if login_RunId loginMsg = [] then
        (case RandId env of
           Inl err \<Rightarrow> Inl err
         | Inr randid \<Rightarrow> Inr (loginMsg\<lparr>login_RunId := login_User loginMsg @ ''-'' @ randid\<rparr>))
      else Inr loginMsg)"

text \<open>
  \<^verbatim>\<open>RegisterControl\<close>: the error it returns, the service afterwards and the effects in
  order. (The goroutine it leaves behind removes the control from the manager when the
  control has closed; it runs after the return.)
\<close>

definition RegisterControl ::
  "server_env \<Rightarrow> Service \<Rightarrow> nat \<Rightarrow> Login \<Rightarrow> error option \<times> Service \<times> server_effect list" where
  "RegisterControl env svr ctlConn loginMsg0 =
     (case login_checks env loginMsg0 of
        Inl err \<Rightarrow> (Some err, svr, [])
      | Inr (inLimit, outLimit) \<Rightarrow>
         (case assign_run_id env loginMsg0 of
            Inl err \<Rightarrow> (Some err, svr, [])
          | Inr loginMsg \<Rightarrow>
             (let ctl = NewControl (next_ctl svr) ctlConn loginMsg inLimit outLimit;
                  (oldCtl, cm, added) = ControlManager_Add (login_RunId loginMsg) ctl (ctlManager svr);
                  waited = (case oldCtl of None \<Rightarrow> [] | Some old \<Rightarrow> [ShutdownWaitDone (ctl_id old)])
              in (None,
                  svr\<lparr>ctlManager := cm, next_ctl := Suc (next_ctl svr)\<rparr>,
                  added @ waited @ [ControlStart (ctl_id ctl), StatsNewClient]))))"

text \<open>
  The \<^verbatim>\<open>*msg.Login\<close> case of \<^verbatim>\<open>dealFn\<close> in \<^verbatim>\<open>HandleListener\<close>: on an error the response
  with the error text is written and the connection closed.
\<close>

definition HandleLogin ::
  "server_env \<Rightarrow> Service \<Rightarrow> nat \<Rightarrow> Login \<Rightarrow> Service \<times> server_effect list" where
  "HandleLogin env svr conn m =
     (case RegisterControl env svr conn m of
        (Some err, svr', effects) \<Rightarrow>
          (svr', effects @ [WriteLoginResp conn (version_Full env) err, ConnClose conn])
      | (None, svr', effects) \<Rightarrow> (svr', effects))"




section \<open>Properties\<close>

subsection \<open>C4: what Compare compares\<close>

text \<open>
  A length test followed by the entry loop decides equality of two Go maps.
\<close>

lemma go_map_eq_iff:
  "(map_len a = map_len b \<and> map_entries_in a b) \<longleftrightarrow> a = b"
proof
  assume h: "map_len a = map_len b \<and> map_entries_in a b"
  then have ent: "\<And>k v. fmlookup a k = Some v \<Longrightarrow> fmlookup b k = Some v"
    by (auto simp: map_entries_in_def fmpred_iff)
  then have sub: "fset (fmdom a) \<subseteq> fset (fmdom b)"
    by (auto simp: fmlookup_dom_iff)
  from h have "card (fset (fmdom a)) = card (fset (fmdom b))"
    by (simp add: map_len_def fcard.rep_eq)
  with sub have deq: "fset (fmdom a) = fset (fmdom b)"
    by (simp add: card_subset_eq)
  show "a = b"
  proof (rule fmap_ext)
    fix k
    show "fmlookup a k = fmlookup b k"
    proof (cases "fmlookup a k")
      case (Some v)
      then show ?thesis using ent by simp
    next
      case None
      then have "k \<notin> fset (fmdom a)" by (simp add: fmdom_notI)
      with deq have "k \<notin> fset (fmdom b)" by simp
      then have "fmlookup b k = None" by (meson fmdom_notD)
      with None show ?thesis by simp
    qed
  qed
next
  assume "a = b"
  then show "map_len a = map_len b \<and> map_entries_in a b"
    by (simp add: map_entries_in_def fmpred_iff)
qed

lemma LocalSvrConf_compare_iff: "LocalSvrConf_compare a b \<longleftrightarrow> a = b"
  using go_map_eq_iff [of "PluginParams a" "PluginParams b"]
  by (cases a; cases b) (auto simp: LocalSvrConf_compare_def)

lemma HealthCheckConf_compare_iff:
  "HealthCheckConf_compare a b \<longleftrightarrow> a\<lparr>HealthCheckAddr := []\<rparr> = b\<lparr>HealthCheckAddr := []\<rparr>"
  by (cases a; cases b) (auto simp: HealthCheckConf_compare_def)

lemma BaseProxyConf_compare_iff:
  "BaseProxyConf_compare a b \<longleftrightarrow> compared_base a = compared_base b"
  by (cases a; cases b)
     (auto simp: BaseProxyConf_compare_def compared_base_def LocalSvrConf_compare_iff
                 HealthCheckConf_compare_iff)

lemma BindInfoConf_compare_iff: "BindInfoConf_compare a b \<longleftrightarrow> a = b"
  by (cases a; cases b) (auto simp: BindInfoConf_compare_def)

lemma DomainConf_compare_iff:
  "DomainConf_compare a b \<longleftrightarrow> compared_domain a = compared_domain b"
  by (cases a; cases b) (auto simp: DomainConf_compare_def compared_domain_def)


lemma Compare_Tcp: "Compare (Tcp x) (Tcp y) \<longleftrightarrow> compared_view (Tcp x) = compared_view (Tcp y)"
  by (cases x; cases y) (auto simp: BaseProxyConf_compare_iff BindInfoConf_compare_iff)

lemma Compare_Udp: "Compare (Udp x) (Udp y) \<longleftrightarrow> compared_view (Udp x) = compared_view (Udp y)"
  by (cases x; cases y) (auto simp: BaseProxyConf_compare_iff BindInfoConf_compare_iff)

lemma Compare_Http: "Compare (Http x) (Http y) \<longleftrightarrow> compared_view (Http x) = compared_view (Http y)"
  using go_map_eq_iff [of "Headers x" "Headers y"]
  by (cases x; cases y) (auto simp: BaseProxyConf_compare_iff DomainConf_compare_iff)

lemma Compare_Https: "Compare (Https x) (Https y) \<longleftrightarrow> compared_view (Https x) = compared_view (Https y)"
  by (cases x; cases y) (auto simp: BaseProxyConf_compare_iff DomainConf_compare_iff)

lemma Compare_Stcp: "Compare (Stcp x) (Stcp y) \<longleftrightarrow> compared_view (Stcp x) = compared_view (Stcp y)"
  by (cases x; cases y) (auto simp: BaseProxyConf_compare_iff)

lemma compared_base_LocalSvr: "compared_base a = compared_base b \<Longrightarrow> LocalSvr a = LocalSvr b"
  by (cases a; cases b) (auto simp: compared_base_def)

lemma Compare_Xtcp: "Compare (Xtcp x) (Xtcp y) \<longleftrightarrow> compared_view (Xtcp x) = compared_view (Xtcp y)"
  by (cases x; cases y) (auto simp: BaseProxyConf_compare_iff LocalSvrConf_compare_iff dest: compared_base_LocalSvr)

lemma Compare_iff: "Compare a b \<longleftrightarrow> compared_view a = compared_view b"
proof (cases a)
  case (Tcp x)
  then show ?thesis using Compare_Tcp by (cases b) auto
next
  case (Udp x)
  then show ?thesis using Compare_Udp by (cases b) auto
next
  case (Http x)
  then show ?thesis using Compare_Http by (cases b) auto
next
  case (Https x)
  then show ?thesis using Compare_Https by (cases b) auto
next
  case (Stcp x)
  then show ?thesis using Compare_Stcp by (cases b) auto
next
  case (Xtcp x)
  then show ?thesis using Compare_Xtcp by (cases b) auto
qed

lemmas zero_defs =
  LocalSvrConf_zero_def HealthCheckConf_zero_def BaseProxyConf_zero_def BindInfoConf_zero_def
  DomainConf_zero_def TcpProxyConf_zero_def UdpProxyConf_zero_def HttpProxyConf_zero_def
  HttpsProxyConf_zero_def StcpProxyConf_zero_def XtcpProxyConf_zero_def

text \<open>
  C4 (as stated: Compare is true exactly when all attributes are equal, and HTTP
  configurations with distinct \<open>custom_domains\<close> or \<open>locations\<close> never compare equal).
  This fails: the lists are compared through \<^verbatim>\<open>strings.Join(_, " ")\<close>, so the one domain
  \<open>a.com b.com\<close> and the two domains \<open>a.com\<close>, \<open>b.com\<close> compare equal, and so do the
  locations \<open>/a /b\<close> against \<open>/a\<close>, \<open>/b\<close>.
\<close>

theorem C4_Compare_counterexample:
  "Compare
     (Http (HttpProxyConf_zero\<lparr>Http_Domain := \<lparr>CustomDomains = [''a.com b.com''], SubDomain = []\<rparr>\<rparr>))
     (Http (HttpProxyConf_zero\<lparr>Http_Domain := \<lparr>CustomDomains = [''a.com'', ''b.com''], SubDomain = []\<rparr>\<rparr>))
   \<and> [''a.com b.com''] \<noteq> [''a.com'', ''b.com'']
   \<and> Compare
     (Http (HttpProxyConf_zero\<lparr>Locations := [''/a /b'']\<rparr>))
     (Http (HttpProxyConf_zero\<lparr>Locations := [''/a'', ''/b'']\<rparr>))
   \<and> [''/a /b''] \<noteq> [''/a'', ''/b'']"
  by (simp add: Compare_iff compared_domain_def zero_defs)

text \<open>
  C4 (amended). Compare returns true if and only if the two configurations have the same
  type and agree on everything Compare looks at: every attribute, with \<open>custom_domains\<close>
  and \<open>locations\<close> taken as their space-joined strings and the derived
  \<open>HealthCheckAddr\<close> left out. Hence a configuration always compares equal to itself,
  and a reload diff reports only proxies of which some attribute changed.
\<close>

theorem C4_Compare_amended:
  "(Compare a b \<longleftrightarrow> compared_view a = compared_view b)
   \<and> (a = b \<longrightarrow> Compare a b)
   \<and> (\<not> Compare a b \<longrightarrow> a \<noteq> b)"
  using Compare_iff [of a b] Compare_iff [of a a] by auto

theorem C4_Compare_amended_witness:
  "Compare (Tcp TcpProxyConf_zero) (Tcp TcpProxyConf_zero)
   \<and> \<not> Compare (Tcp TcpProxyConf_zero) (Tcp (TcpProxyConf_zero\<lparr>Tcp_BindInfo := \<lparr>RemotePort = 6000\<rparr>\<rparr>))
   \<and> Tcp TcpProxyConf_zero \<noteq> Tcp (TcpProxyConf_zero\<lparr>Tcp_BindInfo := \<lparr>RemotePort = 6000\<rparr>\<rparr>)"
  using C4_Compare_amended [of "Tcp TcpProxyConf_zero" "Tcp TcpProxyConf_zero"]
        C4_Compare_amended [of "Tcp TcpProxyConf_zero"
                               "Tcp (TcpProxyConf_zero\<lparr>Tcp_BindInfo := \<lparr>RemotePort = 6000\<rparr>\<rparr>)"]
  by (simp add: zero_defs)

subsection \<open>C5: name collisions in the proxy map\<close>

text \<open>
  C5. Adding a proxy under a name already present in the server's proxy map fails with
  an error and leaves the manager (hence the existing entry) unchanged; adding under a
  fresh name succeeds, and the new map is the old one with exactly that one entry added.
\<close>

theorem C5_ProxyManager_Add:
  "(pxys pm name \<noteq> None \<longrightarrow>
      (\<exists>e. ProxyManager_Add name pxy pm = (Some e, pm)))
   \<and> (pxys pm name = None \<longrightarrow>
      (\<exists>pm'. ProxyManager_Add name pxy pm = (None, pm')
         \<and> pxys pm' name = Some pxy
         \<and> dom (pxys pm') = insert name (dom (pxys pm))
         \<and> (\<forall>n. n \<noteq> name \<longrightarrow> pxys pm' n = pxys pm n)))"
  by (auto simp: ProxyManager_Add_def)

theorem C5_ProxyManager_Add_witness:
  "(\<exists>e. ProxyManager_Add ''ssh'' (2::nat) \<lparr>pxys = [''ssh'' \<mapsto> 1]\<rparr> = (Some e, \<lparr>pxys = [''ssh'' \<mapsto> 1]\<rparr>))
   \<and> (\<exists>pm'. ProxyManager_Add ''web'' (2::nat) \<lparr>pxys = [''ssh'' \<mapsto> 1]\<rparr> = (None, pm')
         \<and> pxys pm' ''web'' = Some 2 \<and> pxys pm' ''ssh'' = Some 1
         \<and> dom (pxys pm') = {''web'', ''ssh''})"
  using C5_ProxyManager_Add [of "\<lparr>pxys = [''ssh'' \<mapsto> 1]\<rparr>" "''ssh''" "2::nat"]
        C5_ProxyManager_Add [of "\<lparr>pxys = [''ssh'' \<mapsto> 1]\<rparr>" "''web''" "2::nat"]
  by (simp add: ProxyManager_Add_def)

subsection \<open>C10: the empty proxy type\<close>

lemmas type_consts = TcpProxy_def UdpProxy_def HttpProxy_def HttpsProxy_def StcpProxy_def XtcpProxy_def

lemma NewConfByType_tcp: "NewConfByType ''tcp'' = Some (Tcp TcpProxyConf_zero)"
  by (simp add: NewConfByType_def type_consts)

lemma NewConfByType_unknown:
  "t \<notin> {''tcp'', ''udp'', ''http'', ''https'', ''stcp'', ''xtcp''} \<Longrightarrow> NewConfByType t = None"
  by (simp add: NewConfByType_def type_consts)

lemma Msg_empty_type:
  assumes "msg_ProxyType m = []"
  shows "NewProxyConfFromMsg g m = NewProxyConfFromMsg g (m\<lparr>msg_ProxyType := ''tcp''\<rparr>)"
    and "NewProxyConfFromMsg g m = Inr (UnmarshalFromMsg (m\<lparr>msg_ProxyType := ''tcp''\<rparr>) (Tcp TcpProxyConf_zero))"
  using assms by (simp_all add: NewProxyConfFromMsg_def NewConfByType_tcp TcpProxy_def Let_def)

lemma Ini_empty_type:
  assumes "sget sec ''type'' = []"
  shows "NewProxyConfFromIni p n sec = NewProxyConfFromIni p n (fmupd ''type'' ''tcp'' sec)"
  using assms by (simp add: NewProxyConfFromIni_def TcpProxy_def sget_def)

lemma health_check_fixup_ProxyType: "ProxyType (health_check_fixup c) = ProxyType c"
  by (simp add: health_check_fixup_def Let_def)

lemma Base_Unmarshal_ProxyType:
  assumes "BaseProxyConf_UnmarshalFromIni p n sec cfg0 = Inr b"
  shows "ProxyType b = sget sec ''type''"
proof -
  from assms obtain c where "b = health_check_fixup c" and "ProxyType c = sget sec ''type''"
    unfolding BaseProxyConf_UnmarshalFromIni_def Let_def
    by (auto split: sum.splits)
  then show ?thesis by (simp add: health_check_fixup_ProxyType)
qed

lemma Unmarshal_Tcp_result:
  assumes "UnmarshalFromIni p n sec (Tcp z) = Inr c"
  shows "\<exists>t. c = Tcp t \<and> ProxyType (Tcp_Base t) = sget sec ''type''"
  using assms Base_Unmarshal_ProxyType [of p n sec "Tcp_Base z"]
  by (auto split: sum.splits)

lemma Ini_result_type:
  assumes "NewProxyConfFromIni p n sec = Inr c"
  shows "\<exists>cfg0. NewConfByType (if sget sec ''type'' = [] then ''tcp'' else sget sec ''type'') = Some cfg0
        \<and> UnmarshalFromIni p n (if sget sec ''type'' = [] then fmupd ''type'' ''tcp'' sec else sec) cfg0 = Inr c"
  using assms unfolding NewProxyConfFromIni_def TcpProxy_def
  by (auto split: option.splits sum.splits if_splits)

lemma Ini_empty_type_result:
  assumes "sget sec ''type'' = []" and "NewProxyConfFromIni p n sec = Inr c"
  shows "\<exists>t. c = Tcp t \<and> ProxyType (Tcp_Base t) = ''tcp''"
proof -
  from Ini_result_type [OF assms(2)] assms(1)
  have "UnmarshalFromIni p n (fmupd ''type'' ''tcp'' sec) (Tcp TcpProxyConf_zero) = Inr c"
    by (simp add: NewConfByType_tcp)
  from Unmarshal_Tcp_result [OF this] show ?thesis by (simp add: sget_def)
qed


lemma LocalSvr_err_hd:
  "LocalSvrConf_UnmarshalFromIni p n sec c = Inl e \<Longrightarrow> hd e = CHR ''P''"
  by (auto simp: LocalSvrConf_UnmarshalFromIni_def Let_def split: option.splits if_splits)

lemma ini_int_err_hd: "ini_int sec k n cur = Inl e \<Longrightarrow> hd e = CHR ''P''"
  by (auto simp: ini_int_def split: option.splits)

lemma HealthCheck_err_hd:
  "HealthCheckConf_UnmarshalFromIni p n sec c = Inl e \<Longrightarrow> hd e = CHR ''P''"
  unfolding HealthCheckConf_UnmarshalFromIni_def Let_def
  by (auto split: sum.splits dest: ini_int_err_hd)

lemma Base_err_hd:
  "BaseProxyConf_UnmarshalFromIni p n sec c = Inl e \<Longrightarrow> hd e = CHR ''P''"
  unfolding BaseProxyConf_UnmarshalFromIni_def Let_def
  by (auto split: sum.splits dest: LocalSvr_err_hd HealthCheck_err_hd)

lemma BindInfo_err_hd:
  "BindInfoConf_UnmarshalFromIni p n sec c = Inl e \<Longrightarrow> hd e = CHR ''P''"
  by (auto simp: BindInfoConf_UnmarshalFromIni_def split: option.splits)

lemma Unmarshal_Tcp_err_hd:
  "UnmarshalFromIni p n sec (Tcp z) = Inl e \<Longrightarrow> hd e = CHR ''P''"
  by (auto split: sum.splits dest: Base_err_hd BindInfo_err_hd)

lemma CheckForCli_Tcp_err_hd:
  "CheckForCli (Tcp c) = Some e \<Longrightarrow> hd e \<noteq> CHR ''p''"
  by (auto simp: BaseProxyConf_checkForCli_def LocalSvrConf_checkForCli_def
        HealthCheckConf_checkForCli_def split: option.splits if_splits)

lemma Ini_empty_type_err:
  assumes "sget sec ''type'' = []" and "NewProxyConfFromIni p n sec = Inl e"
  shows "hd e \<noteq> CHR ''p''"
proof -
  let ?sec = "fmupd ''type'' ''tcp'' sec"
  show ?thesis
  proof (cases "UnmarshalFromIni p n ?sec (Tcp TcpProxyConf_zero)")
    case (Inl e')
    with assms have "e = e'"
      by (simp add: NewProxyConfFromIni_def TcpProxy_def NewConfByType_tcp)
    with Unmarshal_Tcp_err_hd [OF Inl] show ?thesis by simp
  next
    case (Inr c)
    from Unmarshal_Tcp_result [OF Inr] obtain t where t: "c = Tcp t" by blast
    from assms Inr have "CheckForCli c = Some e"
      by (simp add: NewProxyConfFromIni_def TcpProxy_def NewConfByType_tcp split: option.splits)
    with t CheckForCli_Tcp_err_hd show ?thesis by blast
  qed
qed

lemma hd_type_error: "hd (type_error n t) = CHR ''p''"
  by (simp add: type_error_def)

lemma unknown_type_Msg:
  assumes "ty \<notin> {[], ''tcp'', ''udp'', ''http'', ''https'', ''stcp'', ''xtcp''}" and "msg_ProxyType m = ty"
  shows "NewProxyConfFromMsg g m = Inl (type_error (msg_ProxyName m) ty)"
  using assms NewConfByType_unknown [of ty]
  by (simp add: NewProxyConfFromMsg_def)

lemma unknown_type_Ini:
  assumes "ty \<notin> {[], ''tcp'', ''udp'', ''http'', ''https'', ''stcp'', ''xtcp''}" and "sget sec ''type'' = ty"
  shows "NewProxyConfFromIni p n sec = Inl (type_error n ty)"
  using assms NewConfByType_unknown [of ty]
  by (simp add: NewProxyConfFromIni_def)

lemma Atoi_22: "Atoi ''22'' = Some 22"
  by code_simp

lemma ParseInt64_6000: "ParseInt64 ''6000'' = Some 6000"
  by code_simp

lemma ini_ssh_example:
  "NewProxyConfFromIni [] ''ssh'' (fmupd ''remote_port'' ''6000'' (fmupd ''local_port'' ''22'' fmempty)) =
     Inr (Tcp \<lparr>Tcp_Base = BaseProxyConf_zero
                  \<lparr>ProxyName := ''ssh'', ProxyType := ''tcp'',
                   LocalSvr := \<lparr>LocalIp = ''127.0.0.1'', LocalPort = 22, Plugin = [],
                                PluginParams = fmempty\<rparr>\<rparr>,
               Tcp_BindInfo = \<lparr>RemotePort = 6000\<rparr>\<rparr>)"
  by (simp add: NewProxyConfFromIni_def sget_def TcpProxy_def NewConfByType_tcp
        BaseProxyConf_UnmarshalFromIni_def LocalSvrConf_UnmarshalFromIni_def
        HealthCheckConf_UnmarshalFromIni_def ini_int_def health_check_fixup_def
        BindInfoConf_UnmarshalFromIni_def Atoi_22 ParseInt64_6000 zero_defs
        BaseProxyConf_checkForCli_def LocalSvrConf_checkForCli_def HealthCheckConf_checkForCli_def)

text \<open>
  C10. A NewProxy message or an INI section with an empty type is handled exactly as one
  with the type \<open>tcp\<close>: the message always yields the tcp configuration (the server-side
  tcp check accepts everything); the section gives the result of the same section with
  \<open>type = tcp\<close>, which is never the unknown-type error and, on success, is a tcp
  configuration. A type that is neither empty nor one of the six fails with the
  unknown-type error on both paths.
\<close>

theorem C10_empty_type_is_tcp:
  "(msg_ProxyType m = [] \<longrightarrow>
      NewProxyConfFromMsg g m = NewProxyConfFromMsg g (m\<lparr>msg_ProxyType := ''tcp''\<rparr>)
      \<and> NewProxyConfFromMsg g m
          = Inr (UnmarshalFromMsg (m\<lparr>msg_ProxyType := ''tcp''\<rparr>) (Tcp TcpProxyConf_zero)))
   \<and> (sget sec ''type'' = [] \<longrightarrow>
      NewProxyConfFromIni p n sec = NewProxyConfFromIni p n (fmupd ''type'' ''tcp'' sec)
      \<and> NewProxyConfFromIni p n sec \<noteq> Inl (type_error n u)
      \<and> (\<forall>c. NewProxyConfFromIni p n sec = Inr c \<longrightarrow>
            (\<exists>t. c = Tcp t \<and> ProxyType (Tcp_Base t) = ''tcp'')))
   \<and> (ty \<notin> {[], ''tcp'', ''udp'', ''http'', ''https'', ''stcp'', ''xtcp''} \<longrightarrow>
      (msg_ProxyType m = ty \<longrightarrow> NewProxyConfFromMsg g m = Inl (type_error (msg_ProxyName m) ty))
      \<and> (sget sec ''type'' = ty \<longrightarrow> NewProxyConfFromIni p n sec = Inl (type_error n ty)))"
proof (intro conjI impI allI)
  assume "msg_ProxyType m = []"
  then show "NewProxyConfFromMsg g m = NewProxyConfFromMsg g (m\<lparr>msg_ProxyType := ''tcp''\<rparr>)"
    by (rule Msg_empty_type(1))
next
  assume "msg_ProxyType m = []"
  then show "NewProxyConfFromMsg g m
          = Inr (UnmarshalFromMsg (m\<lparr>msg_ProxyType := ''tcp''\<rparr>) (Tcp TcpProxyConf_zero))"
    by (rule Msg_empty_type(2))
next
  assume "sget sec ''type'' = []"
  then show "NewProxyConfFromIni p n sec = NewProxyConfFromIni p n (fmupd ''type'' ''tcp'' sec)"
    by (rule Ini_empty_type)
next
  assume e: "sget sec ''type'' = []"
  show "NewProxyConfFromIni p n sec \<noteq> Inl (type_error n u)"
  proof
    assume "NewProxyConfFromIni p n sec = Inl (type_error n u)"
    from Ini_empty_type_err [OF e this] show False by (simp add: hd_type_error)
  qed
next
  fix c
  assume "sget sec ''type'' = []" and "NewProxyConfFromIni p n sec = Inr c"
  then show "\<exists>t. c = Tcp t \<and> ProxyType (Tcp_Base t) = ''tcp''"
    by (rule Ini_empty_type_result)
next
  assume "ty \<notin> {[], ''tcp'', ''udp'', ''http'', ''https'', ''stcp'', ''xtcp''}" and "msg_ProxyType m = ty"
  then show "NewProxyConfFromMsg g m = Inl (type_error (msg_ProxyName m) ty)"
    by (rule unknown_type_Msg)
next
  assume "ty \<notin> {[], ''tcp'', ''udp'', ''http'', ''https'', ''stcp'', ''xtcp''}" and "sget sec ''type'' = ty"
  then show "NewProxyConfFromIni p n sec = Inl (type_error n ty)"
    by (rule unknown_type_Ini)
qed


theorem C10_empty_type_is_tcp_witness:
  "(\<exists>c. NewProxyConfFromMsg \<lparr>vhostHttpPort = 0, vhostHttpsPort = 0, subDomainHost = []\<rparr>
         \<lparr>msg_ProxyName = ''ssh'', msg_ProxyType = [], msg_UseEncryption = False,
          msg_UseCompression = False, msg_Group = [], msg_GroupKey = [], msg_RemotePort = 6000,
          msg_CustomDomains = [], msg_SubDomain = [], msg_Locations = [], msg_HttpUser = [],
          msg_HttpPwd = [], msg_HostHeaderRewrite = [], msg_Headers = fmempty, msg_Sk = []\<rparr>
        = Inr (Tcp c) \<and> RemotePort (Tcp_BindInfo c) = 6000 \<and> ProxyType (Tcp_Base c) = ''tcp'')
   \<and> (\<exists>t. NewProxyConfFromIni [] ''ssh''
             (fmupd ''remote_port'' ''6000'' (fmupd ''local_port'' ''22'' fmempty)) = Inr (Tcp t)
          \<and> ProxyType (Tcp_Base t) = ''tcp'' \<and> LocalPort (LocalSvr (Tcp_Base t)) = 22)
   \<and> NewProxyConfFromIni [] ''ssh'' (fmupd ''type'' ''ftp'' fmempty) = Inl (type_error ''ssh'' ''ftp'')"
  (is "(\<exists>c. NewProxyConfFromMsg ?g ?m = _ \<and> _ \<and> _) \<and> (\<exists>t. NewProxyConfFromIni _ _ ?sec = _ \<and> _ \<and> _) \<and> ?D")
proof (intro conjI)
  have h: "msg_ProxyType ?m = []" by simp
  note A = C10_empty_type_is_tcp [where m = ?m and g = ?g, THEN conjunct1, THEN mp, OF h, THEN conjunct2]
  show "\<exists>c. NewProxyConfFromMsg ?g ?m = Inr (Tcp c) \<and> RemotePort (Tcp_BindInfo c) = 6000
                \<and> ProxyType (Tcp_Base c) = ''tcp''"
    unfolding A
    by (simp add: BaseProxyConf_UnmarshalFromMsg_def BindInfoConf_UnmarshalFromMsg_def)
next
  have e: "sget ?sec ''type'' = []" by (simp add: sget_def)
  note B = C10_empty_type_is_tcp [where sec = ?sec and p = "[]" and n = "''ssh''",
             THEN conjunct2, THEN conjunct1, THEN mp, OF e, THEN conjunct2, THEN conjunct2,
             THEN spec, THEN mp, OF ini_ssh_example]
  from B show "\<exists>t. NewProxyConfFromIni [] ''ssh'' ?sec = Inr (Tcp t)
          \<and> ProxyType (Tcp_Base t) = ''tcp'' \<and> LocalPort (LocalSvr (Tcp_Base t)) = 22"
    unfolding ini_ssh_example by simp
next
  have t: "''ftp'' \<notin> {[], ''tcp'', ''udp'', ''http'', ''https'', ''stcp'', ''xtcp''}" by simp
  have s: "sget (fmupd ''type'' ''ftp'' fmempty) ''type'' = ''ftp''" by (simp add: sget_def)
  show ?D
    by (rule C10_empty_type_is_tcp [where sec = "fmupd ''type'' ''ftp'' fmempty" and ty = "''ftp''"
               and p = "[]" and n = "''ssh''",
             THEN conjunct2, THEN conjunct2, THEN mp, OF t, THEN conjunct2, THEN mp, OF s])
qed


subsection \<open>C8: range sections\<close>

text \<open>Printing a natural number and reading it back; hence the sub-section names differ.\<close>

lemma digit_char_props:
  assumes "d < 10"
  shows "is_digit (digit_char d)" and "digit_val (digit_char d) = d"
  using assms by (simp_all add: is_digit_def digit_val_def digit_char_def)

lemma parse_digits_append:
  "parse_digits acc (xs @ ys) =
     (case parse_digits acc xs of None \<Rightarrow> None | Some a \<Rightarrow> parse_digits a ys)"
  by (induction xs arbitrary: acc) auto

lemma parse_digits_dec_nat: "parse_digits 0 (dec_nat n) = Some n"
proof (induction n rule: dec_nat.induct)
  case (1 n)
  show ?case
  proof (cases "n < 10")
    case True
    then show ?thesis
      by (subst dec_nat.simps) (simp add: digit_char_props)
  next
    case False
    with 1 have "parse_digits 0 (dec_nat (n div 10)) = Some (n div 10)" by simp
    with False show ?thesis
      by (subst dec_nat.simps) (simp add: parse_digits_append digit_char_props)
  qed
qed

lemma dec_nat_inj:
  assumes "dec_nat a = dec_nat b"
  shows "a = b"
proof -
  have "Some a = parse_digits 0 (dec_nat a)" by (simp only: parse_digits_dec_nat)
  also have "\<dots> = parse_digits 0 (dec_nat b)" by (simp only: assms)
  also have "\<dots> = Some b" by (simp only: parse_digits_dec_nat)
  finally show ?thesis by simp
qed

lemma sub_name_inj: "sub_name name i = sub_name name j \<longleftrightarrow> i = j"
  by (auto simp: sub_name_def Sprintf_d_def dest: dec_nat_inj)

lemma range_loop_other:
  assumes "\<forall>j<length ps. k \<noteq> sub_name name (i + j)"
    and "range_loop name sec rs i ps acc = Some res"
  shows "fmlookup res k = fmlookup acc k"
  using assms
proof (induction ps arbitrary: i acc)
  case Nil
  then show ?case by simp
next
  case (Cons port rest)
  from Cons.prems(2) have inr: "i < length rs"
    and rec: "range_loop name sec rs (Suc i) rest
               (fmupd (sub_name name i) (sub_section sec port (rs ! i)) acc) = Some res"
    by (auto split: if_splits)
  from Cons.prems(1) have k0: "k \<noteq> sub_name name i" by force
  from Cons.prems(1) have "\<forall>j<length rest. k \<noteq> sub_name name (Suc i + j)" by force
  from Cons.IH [OF this rec] k0 show ?case by simp
qed

lemma range_loop_entry:
  assumes "j < length ps" and "range_loop name sec rs i ps acc = Some res"
  shows "fmlookup res (sub_name name (i + j)) = Some (sub_section sec (ps ! j) (rs ! (i + j)))"
  using assms
proof (induction ps arbitrary: i j acc)
  case Nil
  then show ?case by simp
next
  case (Cons port rest)
  from Cons.prems(2) have inr: "i < length rs"
    and rec: "range_loop name sec rs (Suc i) rest
               (fmupd (sub_name name i) (sub_section sec port (rs ! i)) acc) = Some res"
    by (auto split: if_splits)
  show ?case
  proof (cases j)
    case 0
    have "\<forall>j'<length rest. sub_name name i \<noteq> sub_name name (Suc i + j')"
      by (simp add: sub_name_inj)
    from range_loop_other [OF this rec] 0 show ?thesis by simp
  next
    case (Suc j')
    with Cons.prems(1) have "j' < length rest" by simp
    from Cons.IH [OF this rec] Suc show ?thesis by simp
  qed
qed

lemma range_loop_succeeds:
  assumes "i + length ps \<le> length rs"
  shows "\<exists>res. range_loop name sec rs i ps acc = Some res"
  using assms by (induction ps arbitrary: i acc) auto

lemma range_loop_dom:
  assumes "range_loop name sec rs 0 ps fmempty = Some res"
  shows "fset (fmdom res) = sub_name name ` {..<length ps}"
proof (intro set_eqI iffI)
  fix k
  assume "k \<in> fset (fmdom res)"
  then have some: "fmlookup res k \<noteq> None" by (meson fmdom_notI)
  show "k \<in> sub_name name ` {..<length ps}"
  proof (rule ccontr)
    assume "k \<notin> sub_name name ` {..<length ps}"
    then have "\<forall>j<length ps. k \<noteq> sub_name name (0 + j)" by auto
    from range_loop_other [OF this assms] some show False by simp
  qed
next
  fix k
  assume "k \<in> sub_name name ` {..<length ps}"
  then obtain j where j: "j < length ps" and k: "k = sub_name name j" by auto
  from range_loop_entry [OF j assms] k show "k \<in> fset (fmdom res)"
    by (simp add: fmlookup_dom_iff)
qed

lemma range_loop_card:
  assumes "range_loop name sec rs 0 ps fmempty = Some res"
  shows "fcard (fmdom res) = length ps"
proof -
  have "inj_on (sub_name name) {..<length ps}" by (simp add: inj_on_def sub_name_inj)
  then have "card (sub_name name ` {..<length ps}) = length ps" by (simp add: card_image)
  with range_loop_dom [OF assms] show ?thesis by (simp add: fcard.rep_eq)
qed

lemma sub_section_ports:
  "sget (sub_section sec l r) ''local_port'' = Sprintf_d l"
  "sget (sub_section sec l r) ''remote_port'' = Sprintf_d r"
  "k \<noteq> ''local_port'' \<Longrightarrow> k \<noteq> ''remote_port'' \<Longrightarrow> fmlookup (sub_section sec l r) k = fmlookup sec k"
  by (simp_all add: sub_section_def sget_def)

lemma dec_nat_small: "n < 10 \<Longrightarrow> dec_nat n = [digit_char n]"
  by (subst dec_nat.simps) simp

lemma dec_nat_step: "10 \<le> n \<Longrightarrow> dec_nat n = dec_nat (n div 10) @ [digit_char (n mod 10)]"
  by (subst dec_nat.simps) simp

lemma digit_char_table:
  "digit_char 0 = CHR ''0''" "digit_char 1 = CHR ''1''" "digit_char 2 = CHR ''2''"
  "digit_char 3 = CHR ''3''" "digit_char 4 = CHR ''4''" "digit_char 5 = CHR ''5''"
  "digit_char 6 = CHR ''6''" "digit_char 7 = CHR ''7''" "digit_char 8 = CHR ''8''"
  "digit_char 9 = CHR ''9''" "digit_char (Suc 0) = CHR ''1''"
  by code_simp+

lemma sub_name_web_1: "sub_name ''web'' (Suc 0) = ''web_1''"
  by (simp add: sub_name_def Sprintf_d_def dec_nat_small digit_char_table)

lemma Sprintf_d_7001: "Sprintf_d 7001 = ''7001''"
  by (simp add: Sprintf_d_def dec_nat_small dec_nat_step digit_char_table)


text \<open>
  C8. When both port lists parse (to \<open>ls\<close> and \<open>rs\<close>) with the same nonzero length,
  \<^verbatim>\<open>ParseRangeSection\<close> succeeds; its result has exactly the keys \<open>name_0\<close> ...
  \<open>name_(n-1)\<close> (\<open>n\<close> distinct keys), and the sub-section \<open>name_i\<close> is the section with
  \<open>local_port\<close> set to the decimal text of the i-th local port and \<open>remote_port\<close> to that
  of the i-th remote port. It returns an error when either list fails to parse, when
  the lengths differ, and when a list is empty.
\<close>

theorem C8_ParseRangeSection:
  "(prn (sget sec ''local_port'') = Inr ls \<and> prn (sget sec ''remote_port'') = Inr rs
        \<and> length ls = length rs \<and> ls \<noteq> [] \<longrightarrow>
      (\<exists>secs. ParseRangeSection prn name sec = Inr secs
         \<and> fset (fmdom secs) = sub_name name ` {..<length ls}
         \<and> fcard (fmdom secs) = length ls
         \<and> (\<forall>i<length ls.
               fmlookup secs (sub_name name i) = Some (sub_section sec (ls ! i) (rs ! i))
             \<and> sget (sub_section sec (ls ! i) (rs ! i)) ''local_port'' = Sprintf_d (ls ! i)
             \<and> sget (sub_section sec (ls ! i) (rs ! i)) ''remote_port'' = Sprintf_d (rs ! i))))
   \<and> (prn (sget sec ''local_port'') = Inl e \<longrightarrow> (\<exists>e'. ParseRangeSection prn name sec = Inl e'))
   \<and> (prn (sget sec ''remote_port'') = Inl e \<longrightarrow> (\<exists>e'. ParseRangeSection prn name sec = Inl e'))
   \<and> (prn (sget sec ''local_port'') = Inr ls \<and> prn (sget sec ''remote_port'') = Inr rs
        \<and> (length ls \<noteq> length rs \<or> ls = [] \<or> rs = []) \<longrightarrow>
         (\<exists>e'. ParseRangeSection prn name sec = Inl e'))"
proof (intro conjI impI)
  assume h: "prn (sget sec ''local_port'') = Inr ls \<and> prn (sget sec ''remote_port'') = Inr rs
        \<and> length ls = length rs \<and> ls \<noteq> []"
  then have "0 + length ls \<le> length rs" by simp
  from range_loop_succeeds [OF this] obtain secs
    where loop: "range_loop name sec rs 0 ls fmempty = Some secs" by blast
  with h have res: "ParseRangeSection prn name sec = Inr secs"
    by (auto simp: ParseRangeSection_def)
  have ent: "\<forall>i<length ls.
               fmlookup secs (sub_name name i) = Some (sub_section sec (ls ! i) (rs ! i))
             \<and> sget (sub_section sec (ls ! i) (rs ! i)) ''local_port'' = Sprintf_d (ls ! i)
             \<and> sget (sub_section sec (ls ! i) (rs ! i)) ''remote_port'' = Sprintf_d (rs ! i)"
    using range_loop_entry [OF _ loop] by (simp add: sub_section_ports)
  show "\<exists>secs. ParseRangeSection prn name sec = Inr secs
         \<and> fset (fmdom secs) = sub_name name ` {..<length ls}
         \<and> fcard (fmdom secs) = length ls
         \<and> (\<forall>i<length ls.
               fmlookup secs (sub_name name i) = Some (sub_section sec (ls ! i) (rs ! i))
             \<and> sget (sub_section sec (ls ! i) (rs ! i)) ''local_port'' = Sprintf_d (ls ! i)
             \<and> sget (sub_section sec (ls ! i) (rs ! i)) ''remote_port'' = Sprintf_d (rs ! i))"
  proof (intro exI [of _ secs] conjI)
    show "ParseRangeSection prn name sec = Inr secs" by (rule res)
    show "fset (fmdom secs) = sub_name name ` {..<length ls}" by (rule range_loop_dom [OF loop])
    show "fcard (fmdom secs) = length ls" by (rule range_loop_card [OF loop])
    show "\<forall>i<length ls.
               fmlookup secs (sub_name name i) = Some (sub_section sec (ls ! i) (rs ! i))
             \<and> sget (sub_section sec (ls ! i) (rs ! i)) ''local_port'' = Sprintf_d (ls ! i)
             \<and> sget (sub_section sec (ls ! i) (rs ! i)) ''remote_port'' = Sprintf_d (rs ! i)"
      by (rule ent)
  qed
next
  assume "prn (sget sec ''local_port'') = Inl e"
  then show "\<exists>e'. ParseRangeSection prn name sec = Inl e'"
    by (simp add: ParseRangeSection_def)
next
  assume "prn (sget sec ''remote_port'') = Inl e"
  then show "\<exists>e'. ParseRangeSection prn name sec = Inl e'"
    by (simp add: ParseRangeSection_def split: sum.splits)
next
  assume "prn (sget sec ''local_port'') = Inr ls \<and> prn (sget sec ''remote_port'') = Inr rs
        \<and> (length ls \<noteq> length rs \<or> ls = [] \<or> rs = [])"
  then show "\<exists>e'. ParseRangeSection prn name sec = Inl e'"
    by (auto simp: ParseRangeSection_def)
qed

theorem C8_ParseRangeSection_witness:
  "(\<exists>secs. ParseRangeSection
             (\<lambda>s. if s = ''7000-7001'' then Inr [7000, 7001]
                  else if s = ''6000,6010'' then Inr [6000, 6010]
                  else if s = ''6000'' then Inr [6000] else Inl ''invalid'')
             ''web'' (fmupd ''remote_port'' ''6000,6010'' (fmupd ''local_port'' ''7000-7001'' fmempty))
           = Inr secs
         \<and> fcard (fmdom secs) = 2
         \<and> (\<exists>sub. fmlookup secs ''web_1'' = Some sub \<and> sget sub ''local_port'' = ''7001''))
   \<and> (\<exists>e'. ParseRangeSection
             (\<lambda>s. if s = ''7000-7001'' then Inr [7000, 7001]
                  else if s = ''6000,6010'' then Inr [6000, 6010]
                  else if s = ''6000'' then Inr [6000] else Inl ''invalid'')
             ''web'' (fmupd ''remote_port'' ''6000'' (fmupd ''local_port'' ''7000-7001'' fmempty))
           = Inl e')"
  (is "(\<exists>secs. ParseRangeSection ?prn _ ?sec = _ \<and> _ \<and> _) \<and> (\<exists>e'. ParseRangeSection _ _ ?sec2 = _)")
proof (intro conjI)
  have h: "?prn (sget ?sec ''local_port'') = Inr [7000, 7001] \<and> ?prn (sget ?sec ''remote_port'') = Inr [6000, 6010]
        \<and> length [7000, 7001 :: int] = length [6000, 6010 :: int] \<and> [7000, 7001 :: int] \<noteq> []"
    by (simp add: sget_def)
  note T = C8_ParseRangeSection [where prn = ?prn and sec = ?sec and name = "''web''"
         and ls = "[7000, 7001]" and rs = "[6000, 6010]", THEN conjunct1, THEN mp, OF h]
  from T obtain secs where r: "ParseRangeSection ?prn ''web'' ?sec = Inr secs"
    and c: "fcard (fmdom secs) = length [7000, 7001 :: int]"
    and e: "\<forall>i<length [7000, 7001 :: int].
               fmlookup secs (sub_name ''web'' i) = Some (sub_section ?sec ([7000, 7001] ! i) ([6000, 6010] ! i))
             \<and> sget (sub_section ?sec ([7000, 7001] ! i) ([6000, 6010] ! i)) ''local_port'' = Sprintf_d ([7000, 7001] ! i)
             \<and> sget (sub_section ?sec ([7000, 7001] ! i) ([6000, 6010] ! i)) ''remote_port'' = Sprintf_d ([6000, 6010] ! i)"
    by (elim exE conjE) (rule that)
  have one: "(1::nat) < length [7000, 7001 :: int]" by simp
  note e1 = e [THEN spec, THEN mp, OF one]
  from e1 [THEN conjunct1] e1 [THEN conjunct2, THEN conjunct1]
  have "fmlookup secs (sub_name ''web'' 1) = Some (sub_section ?sec 7001 6010)
             \<and> sget (sub_section ?sec 7001 6010) ''local_port'' = Sprintf_d 7001"
    by simp
  then have "\<exists>sub. fmlookup secs ''web_1'' = Some sub \<and> sget sub ''local_port'' = ''7001''"
    by (simp add: sub_name_web_1 Sprintf_d_7001)
  with r c show "\<exists>secs. ParseRangeSection ?prn ''web'' ?sec = Inr secs \<and> fcard (fmdom secs) = 2
         \<and> (\<exists>sub. fmlookup secs ''web_1'' = Some sub \<and> sget sub ''local_port'' = ''7001'')"
    by simp
next
  have h: "?prn (sget ?sec2 ''local_port'') = Inr [7000, 7001] \<and> ?prn (sget ?sec2 ''remote_port'') = Inr [6000]
        \<and> (length [7000, 7001 :: int] \<noteq> length [6000 :: int] \<or> [7000, 7001 :: int] = [] \<or> [6000 :: int] = [])"
    by (simp add: sget_def)
  show "\<exists>e'. ParseRangeSection ?prn ''web'' ?sec2 = Inl e'"
    by (rule C8_ParseRangeSection [where prn = ?prn and sec = ?sec2 and name = "''web''"
         and ls = "[7000, 7001]" and rs = "[6000]",
         THEN conjunct2, THEN conjunct2, THEN conjunct2, THEN mp, OF h])
qed


subsection \<open>C9: closing a client UDP proxy twice\<close>

lemma Close_closed: "closed pxy \<Longrightarrow> UdpProxy_Close pxy = Inr pxy"
  by (simp add: UdpProxy_Close_def)

lemma Close_result_closed: "UdpProxy_Close pxy = Inr pxy' \<Longrightarrow> closed pxy'"
  by (auto simp: UdpProxy_Close_def Let_def split: if_splits option.splits chan.splits)

lemma Close_open:
  assumes "\<not> closed pxy" and "readCh pxy \<noteq> Some ChanClosed" and "sendCh pxy \<noteq> Some ChanClosed"
  shows "UdpProxy_Close pxy =
           Inr \<lparr>closed = True,
                workConn = map_option (\<lambda>c. ConnClosed) (workConn pxy),
                readCh = map_option (\<lambda>c. ChanClosed) (readCh pxy),
                sendCh = map_option (\<lambda>c. ChanClosed) (sendCh pxy)\<rparr>"
  using assms
  by (cases pxy) (auto simp: UdpProxy_Close_def Let_def split: option.splits chan.splits)

text \<open>
  C9. \<^verbatim>\<open>Close\<close> on a closed proxy returns the state unchanged; every state that \<^verbatim>\<open>Close\<close>
  returns is closed, so a second \<^verbatim>\<open>Close\<close> is a no-op and Close followed by Close equals
  one Close. The first \<^verbatim>\<open>Close\<close> of an open proxy sets the flag and closes the work
  connection and both channels (those that are set). It cannot panic on the states the
  code produces: a new proxy has no closed channel while open, and \<^verbatim>\<open>Close\<close> and
  \<^verbatim>\<open>InWorkConn\<close> keep it so.
\<close>

theorem C9_UdpProxy_Close_idempotent:
  "(closed pxy \<longrightarrow> UdpProxy_Close pxy = Inr pxy)
   \<and> (UdpProxy_Close pxy = Inr pxy' \<longrightarrow> closed pxy' \<and> UdpProxy_Close pxy' = Inr pxy')
   \<and> (\<not> closed pxy \<and> chans_ok pxy \<longrightarrow>
        UdpProxy_Close pxy =
           Inr \<lparr>closed = True,
                workConn = map_option (\<lambda>c. ConnClosed) (workConn pxy),
                readCh = map_option (\<lambda>c. ChanClosed) (readCh pxy),
                sendCh = map_option (\<lambda>c. ChanClosed) (sendCh pxy)\<rparr>)
   \<and> (chans_ok pxy \<longrightarrow> (\<exists>p. UdpProxy_Close pxy = Inr p \<and> chans_ok p)
          \<and> (\<exists>p. UdpProxy_InWorkConn pxy = Inr p \<and> chans_ok p))
   \<and> chans_ok UdpProxy_new"
proof (intro conjI impI)
  assume "closed pxy" then show "UdpProxy_Close pxy = Inr pxy" by (rule Close_closed)
next
  assume "UdpProxy_Close pxy = Inr pxy'"
  then show "closed pxy'" by (rule Close_result_closed)
next
  assume "UdpProxy_Close pxy = Inr pxy'"
  then have "closed pxy'" by (rule Close_result_closed)
  then show "UdpProxy_Close pxy' = Inr pxy'" by (rule Close_closed)
next
  assume "\<not> closed pxy \<and> chans_ok pxy"
  then show "UdpProxy_Close pxy =
           Inr \<lparr>closed = True,
                workConn = map_option (\<lambda>c. ConnClosed) (workConn pxy),
                readCh = map_option (\<lambda>c. ChanClosed) (readCh pxy),
                sendCh = map_option (\<lambda>c. ChanClosed) (sendCh pxy)\<rparr>"
    using Close_open [of pxy] by (auto simp: chans_ok_def)
next
  assume ok: "chans_ok pxy"
  show "\<exists>p. UdpProxy_Close pxy = Inr p \<and> chans_ok p"
  proof (cases "closed pxy")
    case True
    with ok show ?thesis by (simp add: Close_closed)
  next
    case False
    with ok Close_open [of pxy] show ?thesis by (auto simp: chans_ok_def)
  qed
next
  assume ok: "chans_ok pxy"
  show "\<exists>p. UdpProxy_InWorkConn pxy = Inr p \<and> chans_ok p"
  proof (cases "closed pxy")
    case True
    with ok show ?thesis by (simp add: UdpProxy_InWorkConn_def Close_closed chans_ok_def)
  next
    case False
    with ok Close_open [of pxy] show ?thesis by (auto simp: UdpProxy_InWorkConn_def chans_ok_def)
  qed
next
  show "chans_ok UdpProxy_new" by (simp add: chans_ok_def UdpProxy_new_def)
qed

theorem C9_UdpProxy_Close_idempotent_witness:
  "UdpProxy_Close \<lparr>closed = False, workConn = Some ConnOpen, readCh = Some ChanOpen, sendCh = Some ChanOpen\<rparr>
     = Inr \<lparr>closed = True, workConn = Some ConnClosed, readCh = Some ChanClosed, sendCh = Some ChanClosed\<rparr>
   \<and> UdpProxy_Close \<lparr>closed = True, workConn = Some ConnClosed, readCh = Some ChanClosed, sendCh = Some ChanClosed\<rparr>
     = Inr \<lparr>closed = True, workConn = Some ConnClosed, readCh = Some ChanClosed, sendCh = Some ChanClosed\<rparr>"
  (is "UdpProxy_Close ?p = Inr ?q \<and> _")
proof -
  have ok: "\<not> closed ?p \<and> chans_ok ?p" by (simp add: chans_ok_def)
  from C9_UdpProxy_Close_idempotent [where pxy = ?p, THEN conjunct2, THEN conjunct2, THEN conjunct1, THEN mp, OF ok]
  have a: "UdpProxy_Close ?p = Inr ?q" by simp
  from C9_UdpProxy_Close_idempotent [where pxy = ?p and pxy' = ?q, THEN conjunct2, THEN conjunct1, THEN mp, OF a]
  have "UdpProxy_Close ?q = Inr ?q" by simp
  with a show ?thesis by simp
qed


subsection \<open>C7: the heartbeat check of the client's message handler\<close>

lemma wrap64_id: "0 \<le> x \<Longrightarrow> x < 2 ^ 63 \<Longrightarrow> wrap64 x = x"
  by (simp add: wrap64_def sint_sbintrunc' signed_take_bit_int_eq_self)

lemma Since_id: "- (2 ^ 63) \<le> now - t \<Longrightarrow> now - t < 2 ^ 63 \<Longrightarrow> Since now t = now - t"
  by (simp add: Since_def)

lemma loop_append:
  "msgHandler_loop T ctl (es @ es') =
     (case msgHandler_loop T ctl es of
        (c, Exited) \<Rightarrow> (c, Exited)
      | (c, Running) \<Rightarrow> msgHandler_loop T c es')"
  by (induction T ctl es rule: msgHandler_loop.induct) (auto split: ctl_msg.splits)

lemma wrap64_90: "wrap64 (90 * Second) = 90000000000"
  by (simp add: wrap64_id Second_def)


lemma wrap64_30: "wrap64 (30 * Second) = 30000000000"
  by (simp add: wrap64_id Second_def)

text \<open>
  C7. With a positive heartbeat interval the handler enters its loop with \<^verbatim>\<open>lastPong\<close>
  set to the time of its start (with a non-positive one it returns at once), and the
  loop runs until an event ends it: before any event it is running. While it runs, a
  tick of the check ticker compares the time since the last Pong with the timeout:
  beyond it the control connection is closed and the loop exits, otherwise the loop
  goes on unchanged; a Pong sets \<^verbatim>\<open>lastPong\<close> to the time of its receipt; a tick of the
  heartbeat ticker sends one Ping; a closed \<^verbatim>\<open>readCh\<close> ends the loop; no other message
  touches \<^verbatim>\<open>lastPong\<close>, the connection or \<^verbatim>\<open>sendCh\<close>. Once the loop has exited, no later
  event changes anything: in particular no further Ping is put on \<^verbatim>\<open>sendCh\<close>. For a
  timeout and times that fit 64 bits the comparison is \<open>now - lastPong > HeartBeatTimeout\<close>
  seconds.
\<close>

theorem C7_heartbeat_timeout:
  "(0 < wrap64 (I * Second) \<longrightarrow>
      msgHandler T I now0 ctl es = msgHandler_loop T (ctl\<lparr>lastPong := now0\<rparr>) es)
   \<and> (wrap64 (I * Second) \<le> 0 \<longrightarrow> msgHandler T I now0 ctl es = (ctl, Exited))
   \<and> msgHandler_loop T ctl [] = (ctl, Running)
   \<and> (msgHandler_loop T ctl es = (c, Exited) \<longrightarrow> msgHandler_loop T ctl (es @ es') = (c, Exited))
   \<and> (msgHandler_loop T ctl es = (c, Running) \<longrightarrow>
        (heartbeat_timed_out T c now \<longrightarrow>
           msgHandler_loop T ctl (es @ [HbCheck now]) = (c\<lparr>conn_closed := True\<rparr>, Exited))
      \<and> (\<not> heartbeat_timed_out T c now \<longrightarrow>
           msgHandler_loop T ctl (es @ [HbCheck now]) = (c, Running))
      \<and> msgHandler_loop T ctl (es @ [ReadCh (Some Pong) now]) = (c\<lparr>lastPong := now\<rparr>, Running)
      \<and> msgHandler_loop T ctl (es @ [HbSend]) = (c\<lparr>ctl_sendCh := ctl_sendCh c @ [Ping]\<rparr>, Running)
      \<and> msgHandler_loop T ctl (es @ [ReadCh None now]) = (c, Exited)
      \<and> msgHandler_loop T ctl (es @ [ReadCh (Some ReqWorkConn) now])
           = (c\<lparr>reqWorkConn_spawned := Suc (reqWorkConn_spawned c)\<rparr>, Running)
      \<and> msgHandler_loop T ctl (es @ [ReadCh (Some (NewProxyResp name addr err)) now])
           = (c\<lparr>newProxyResp_handled := newProxyResp_handled c @ [(name, addr, err)]\<rparr>, Running)
      \<and> msgHandler_loop T ctl (es @ [ReadCh (Some Ping) now]) = (c, Running)
      \<and> msgHandler_loop T ctl (es @ [ReadCh (Some OtherMsg) now]) = (c, Running))
   \<and> (0 \<le> T \<and> T * Second < 2 ^ 63 \<and> - (2 ^ 63) \<le> now - lastPong c \<and> now - lastPong c < 2 ^ 63 \<longrightarrow>
        (heartbeat_timed_out T c now \<longleftrightarrow> now - lastPong c > T * Second))"
proof (intro conjI impI)
  assume "0 < wrap64 (I * Second)"
  then show "msgHandler T I now0 ctl es = msgHandler_loop T (ctl\<lparr>lastPong := now0\<rparr>) es"
    by (simp add: msgHandler_def)
next
  assume "wrap64 (I * Second) \<le> 0"
  then show "msgHandler T I now0 ctl es = (ctl, Exited)" by (simp add: msgHandler_def)
next
  show "msgHandler_loop T ctl [] = (ctl, Running)" by simp
next
  assume "msgHandler_loop T ctl es = (c, Exited)"
  then show "msgHandler_loop T ctl (es @ es') = (c, Exited)" by (simp add: loop_append)
next
  assume "msgHandler_loop T ctl es = (c, Running)" and "heartbeat_timed_out T c now"
  then show "msgHandler_loop T ctl (es @ [HbCheck now]) = (c\<lparr>conn_closed := True\<rparr>, Exited)"
    by (simp add: loop_append)
next
  assume "msgHandler_loop T ctl es = (c, Running)" and "\<not> heartbeat_timed_out T c now"
  then show "msgHandler_loop T ctl (es @ [HbCheck now]) = (c, Running)"
    by (simp add: loop_append)
next
  assume "msgHandler_loop T ctl es = (c, Running)"
  then show "msgHandler_loop T ctl (es @ [ReadCh (Some Pong) now]) = (c\<lparr>lastPong := now\<rparr>, Running)"
    by (simp add: loop_append)
next
  assume "msgHandler_loop T ctl es = (c, Running)"
  then show "msgHandler_loop T ctl (es @ [HbSend]) = (c\<lparr>ctl_sendCh := ctl_sendCh c @ [Ping]\<rparr>, Running)"
    by (simp add: loop_append)
next
  assume "msgHandler_loop T ctl es = (c, Running)"
  then show "msgHandler_loop T ctl (es @ [ReadCh None now]) = (c, Exited)"
    by (simp add: loop_append)
next
  assume "msgHandler_loop T ctl es = (c, Running)"
  then show "msgHandler_loop T ctl (es @ [ReadCh (Some ReqWorkConn) now])
           = (c\<lparr>reqWorkConn_spawned := Suc (reqWorkConn_spawned c)\<rparr>, Running)"
    by (simp add: loop_append)
next
  assume "msgHandler_loop T ctl es = (c, Running)"
  then show "msgHandler_loop T ctl (es @ [ReadCh (Some (NewProxyResp name addr err)) now])
           = (c\<lparr>newProxyResp_handled := newProxyResp_handled c @ [(name, addr, err)]\<rparr>, Running)"
    by (simp add: loop_append)
next
  assume "msgHandler_loop T ctl es = (c, Running)"
  then show "msgHandler_loop T ctl (es @ [ReadCh (Some Ping) now]) = (c, Running)"
    by (simp add: loop_append)
next
  assume "msgHandler_loop T ctl es = (c, Running)"
  then show "msgHandler_loop T ctl (es @ [ReadCh (Some OtherMsg) now]) = (c, Running)"
    by (simp add: loop_append)
next
  assume h: "0 \<le> T \<and> T * Second < 2 ^ 63 \<and> - (2 ^ 63) \<le> now - lastPong c \<and> now - lastPong c < 2 ^ 63"
  then have "0 \<le> T * Second" by (simp add: Second_def)
  with h show "heartbeat_timed_out T c now \<longleftrightarrow> now - lastPong c > T * Second"
    by (simp add: heartbeat_timed_out_def wrap64_id Since_id)
qed

theorem C7_heartbeat_timeout_witness:
  "msgHandler 90 30 0
     \<lparr>lastPong = 7, conn_closed = False, ctl_sendCh = [], reqWorkConn_spawned = 0, newProxyResp_handled = []\<rparr>
     [] =
     (\<lparr>lastPong = 0, conn_closed = False, ctl_sendCh = [], reqWorkConn_spawned = 0,
       newProxyResp_handled = []\<rparr>, Running)
   \<and> msgHandler 90 30 0
     \<lparr>lastPong = 7, conn_closed = False, ctl_sendCh = [], reqWorkConn_spawned = 0, newProxyResp_handled = []\<rparr>
     ((([] @ [HbSend]) @ [HbCheck 10000000000]) @ [ReadCh (Some Pong) 50000000000])
     = (\<lparr>lastPong = 50000000000, conn_closed = False, ctl_sendCh = [Ping], reqWorkConn_spawned = 0,
       newProxyResp_handled = []\<rparr>, Running)
   \<and> msgHandler 90 30 0
     \<lparr>lastPong = 7, conn_closed = False, ctl_sendCh = [], reqWorkConn_spawned = 0, newProxyResp_handled = []\<rparr>
     ((((([] @ [HbSend]) @ [HbCheck 10000000000]) @ [ReadCh (Some Pong) 50000000000])
        @ [HbCheck 141000000000]) @ [HbSend])
   = (\<lparr>lastPong = 50000000000, conn_closed = True, ctl_sendCh = [Ping], reqWorkConn_spawned = 0,
       newProxyResp_handled = []\<rparr>, Exited)"
proof -
  let ?cin = "\<lparr>lastPong = 7, conn_closed = False, ctl_sendCh = [], reqWorkConn_spawned = 0, newProxyResp_handled = []\<rparr>"
  let ?cs = "\<lparr>lastPong = 0, conn_closed = False, ctl_sendCh = [], reqWorkConn_spawned = 0, newProxyResp_handled = []\<rparr>"
  let ?cq = "\<lparr>lastPong = 50000000000, conn_closed = False, ctl_sendCh = [Ping], reqWorkConn_spawned = 0, newProxyResp_handled = []\<rparr>"
  let ?cx = "\<lparr>lastPong = 50000000000, conn_closed = True, ctl_sendCh = [Ping], reqWorkConn_spawned = 0, newProxyResp_handled = []\<rparr>"
  let ?t1 = "10000000000 :: int"
  let ?t2 = "50000000000 :: int"
  let ?t3 = "141000000000 :: int"
  let ?cp = "?cs\<lparr>ctl_sendCh := [Ping]\<rparr>"
  let ?ea = "[] @ [HbSend]"
  let ?eb = "?ea @ [HbCheck 10000000000]"
  let ?ec = "?eb @ [ReadCh (Some Pong) 50000000000]"
  let ?ed = "?ec @ [HbCheck 141000000000]"
  have pos: "0 < wrap64 (30 * Second)" by (simp add: wrap64_30)
  have enter: "msgHandler 90 30 0 ?cin es = msgHandler_loop 90 (?cin\<lparr>lastPong := 0\<rparr>) es" for es
    by (rule C7_heartbeat_timeout [where T = 90 and I = 30 and ctl = ?cin,
      THEN conjunct1, THEN mp, OF pos])
  have c0: "?cin\<lparr>lastPong := 0\<rparr> = ?cs" by simp
  note r0 = C7_heartbeat_timeout [where T = 90 and ctl = ?cs,
      THEN conjunct2, THEN conjunct2, THEN conjunct1]
  have r1: "msgHandler_loop 90 ?cs ?ea = (?cp, Running)"
    using C7_heartbeat_timeout [where T = 90 and ctl = ?cs and es = "[]" and c = ?cs,
      THEN conjunct2, THEN conjunct2, THEN conjunct2, THEN conjunct2, THEN conjunct1, THEN mp, OF r0,
      THEN conjunct2, THEN conjunct2, THEN conjunct2, THEN conjunct1]
    by simp
  have ok: "\<not> heartbeat_timed_out 90 ?cp 10000000000"
    by (simp add: heartbeat_timed_out_def wrap64_90 Since_def)
  note r2 = C7_heartbeat_timeout [where T = 90 and ctl = ?cs and es = ?ea and c = ?cp
      and now = 10000000000,
      THEN conjunct2, THEN conjunct2, THEN conjunct2, THEN conjunct2, THEN conjunct1, THEN mp, OF r1,
      THEN conjunct2, THEN conjunct1, THEN mp, OF ok]
  have r3: "msgHandler_loop 90 ?cs ?ec = (?cq, Running)"
    using C7_heartbeat_timeout [where T = 90 and ctl = ?cs and es = ?eb and c = ?cp
      and now = 50000000000,
      THEN conjunct2, THEN conjunct2, THEN conjunct2, THEN conjunct2, THEN conjunct1, THEN mp, OF r2,
      THEN conjunct2, THEN conjunct2, THEN conjunct1]
    by simp
  have late: "heartbeat_timed_out 90 ?cq 141000000000"
    by (simp add: heartbeat_timed_out_def wrap64_90 Since_def)
  have r4: "msgHandler_loop 90 ?cs ?ed = (?cx, Exited)"
    using C7_heartbeat_timeout [where T = 90 and ctl = ?cs and es = ?ec and c = ?cq
      and now = 141000000000,
      THEN conjunct2, THEN conjunct2, THEN conjunct2, THEN conjunct2, THEN conjunct1, THEN mp, OF r3,
      THEN conjunct1, THEN mp, OF late]
    by simp
  note r5 = C7_heartbeat_timeout [where T = 90 and ctl = ?cs and es = ?ed and c = ?cx
      and es' = "[HbSend]",
      THEN conjunct2, THEN conjunct2, THEN conjunct2, THEN conjunct1, THEN mp, OF r4]
  show ?thesis
    using r0 r3 r5 by (simp only: enter c0)
qed

subsection \<open>C3: the PROXY-protocol header of a work connection\<close>

text \<open>
  \<^verbatim>\<open>To16\<close> is \<^verbatim>\<open>nil\<close> only for a slice that is no address at all, so the test
  \<^verbatim>\<open>h.SourceAddress.To16() == nil\<close> selects TCPv4 exactly when the source address did not
  parse, and TCPv6 for every IPv4 and every IPv6 address. The other parts of the claim
  hold: a header is built exactly when a version is set and the source address and
  port are known, it carries the configured version, and it is written to the local
  connection before the connections are joined.
\<close>

lemma To16_nil_iff: "To16 ip = [] \<longleftrightarrow> length ip \<noteq> 4 \<and> length ip \<noteq> 16"
  by (auto simp: To16_def IPv4_def v4InV6Prefix_def)

lemma transport_protocol_choice:
  assumes "proxy_protocol_header parseIPv6 baseInfo m = Some h"
  shows "TransportProtocol h = (if length (SourceAddress h) = 4 \<or> length (SourceAddress h) = 16 then TCPv6 else TCPv4)"
  using assms
  by (auto simp: proxy_protocol_header_def Let_def To16_nil_iff split: if_splits)

lemma Split_1234: "Split ''1.2.3.4'' ''.'' = [''1'', ''2'', ''3'', ''4'']"
  by code_simp

lemma ipv4_fields:
  "ipv4_field ''1'' = Some 1" "ipv4_field ''2'' = Some 2" "ipv4_field ''3'' = Some 3" "ipv4_field ''4'' = Some 4"
  by (simp_all add: ipv4_field_def is_digit_def digit_val_def)

lemma ParseIP_1234: "ParseIP parseIPv6 ''1.2.3.4'' = IPv4 1 2 3 4"
  by (simp add: ParseIP_def parseIPv4_def Split_1234 ipv4_fields)

lemma header_written_first:
  assumes "proxy_protocol_header (env_parseIPv6 env) baseInfo m = Some h"
    and "\<not> (UseEncryption baseInfo \<and> encryption_fails env)" and "\<not> plugin_set env" and "\<not> connect_fails env"
    and "WriteTo env h \<noteq> []"
  shows "HandleTcpWorkConnection env baseInfo m = [LocalWrite (WriteTo env h), JoinConns]"
  using assms by (simp add: HandleTcpWorkConnection_def)

lemma header_built_iff:
  "(\<exists>h. proxy_protocol_header parseIPv6 baseInfo m = Some h) \<longleftrightarrow>
     ProxyProtocolVersion baseInfo \<noteq> [] \<and> SrcAddr m \<noteq> [] \<and> SrcPort m \<noteq> 0"
  by (simp add: proxy_protocol_header_def Let_def)

lemma header_version:
  assumes "proxy_protocol_header parseIPv6 baseInfo m = Some h"
  shows "ProxyProtocolVersion baseInfo = ''v1'' \<Longrightarrow> Version h = 1"
    and "ProxyProtocolVersion baseInfo = ''v2'' \<Longrightarrow> Version h = 2"
  using assms by (auto simp: proxy_protocol_header_def Let_def split: if_splits)

lemma no_header_without_source:
  assumes "SrcAddr m = [] \<or> SrcPort m = 0"
    and "\<not> (UseEncryption baseInfo \<and> encryption_fails env)" and "\<not> plugin_set env" and "\<not> connect_fails env"
  shows "HandleTcpWorkConnection env baseInfo m = [JoinConns]"
  using assms by (auto simp: HandleTcpWorkConnection_def proxy_protocol_header_def)

text \<open>
  C3 (the code at the failing input). With \<open>proxy_protocol_version = v1\<close> and the IPv4
  source address \<open>1.2.3.4\<close>, port 1234, the header that is built has the transport
  protocol TCPv6, where the claim says TCPv4.
\<close>

theorem C3_ipv4_source_gets_TCPv6:
  "proxy_protocol_header parseIPv6 (BaseProxyConf_zero\<lparr>ProxyProtocolVersion := ''v1''\<rparr>)
     \<lparr>swc_ProxyName = ''ssh'', SrcAddr = ''1.2.3.4'', DstAddr = ''1.2.3.4'', SrcPort = 1234, DstPort = 22\<rparr>
   = Some \<lparr>Version = 1, Command = PROXY, TransportProtocol = TCPv6,
           SourceAddress = IPv4 1 2 3 4, DestinationAddress = IPv4 1 2 3 4,
           SourcePort = 1234, DestinationPort = 22\<rparr>"
  by (simp add: proxy_protocol_header_def Let_def ParseIP_1234 To16_nil_iff BaseProxyConf_zero_def
        IPv4_def v4InV6Prefix_def)


subsection \<open>The server's login path\<close>

lemma RegisterControl_failure:
  assumes "fst (RegisterControl env svr conn m) = Some e"
  shows "RegisterControl env svr conn m = (Some e, svr, [])"
  using assms
  by (auto simp: RegisterControl_def Let_def split: sum.splits prod.splits)

lemma RegisterControl_success:
  assumes "login_checks env m = Inr (inLimit, outLimit)" and "assign_run_id env m = Inr m'"
  shows "RegisterControl env svr conn m =
     (None,
      svr\<lparr>ctlManager := (ctlManager svr)\<lparr>ctlsByRunId :=
              (ctlsByRunId (ctlManager svr))(login_RunId m' \<mapsto> NewControl (next_ctl svr) conn m' inLimit outLimit)\<rparr>,
          next_ctl := Suc (next_ctl svr)\<rparr>,
      (case ctlsByRunId (ctlManager svr) (login_RunId m') of
         None \<Rightarrow> [] | Some old \<Rightarrow> [ShutdownStart (ctl_id old), ShutdownWaitDone (ctl_id old)])
      @ [Installed (login_RunId m') (next_ctl svr)]
      @ (case ctlsByRunId (ctlManager svr) (login_RunId m') of
         None \<Rightarrow> [] | Some old \<Rightarrow> [ShutdownWaitDone (ctl_id old)])
      @ [ControlStart (next_ctl svr), StatsNewClient])"
  using assms
  by (simp add: RegisterControl_def ControlManager_Add_def Let_def NewControl_def)

lemma RegisterControl_success_inv:
  assumes "RegisterControl env svr conn m = (None, svr', effs)"
  shows "\<exists>lim m'. login_checks env m = Inr lim \<and> assign_run_id env m = Inr m'"
  using assms
  by (auto simp: RegisterControl_def Let_def split: sum.splits prod.splits)

lemma login_checks_reject:
  assumes "\<not> fst (version_Compat env (login_Version m))
           \<or> GetAuthKey env (Token env) (login_Timestamp m) \<noteq> login_PrivilegeKey m"
  shows "\<exists>e. login_checks env m = Inl e"
  using assms by (auto simp: login_checks_def split: prod.splits)


lemma Sprintf_d_0: "Sprintf_d 0 = ''0''"
  by (simp add: Sprintf_d_def dec_nat_small digit_char_table)

lemmas server_defs =
  RegisterControl_def HandleLogin_def login_checks_def assign_run_id_def ControlManager_Add_def
  NewControl_def Sprintf_d_0


subsection \<open>C6: the run id of a login\<close>

text \<open>
  C6. A login with an empty \<open>run_id\<close> is given the run id made of its user name, a
  hyphen and the random identifier that \<^verbatim>\<open>RandId\<close> returned; a login with a non-empty
  \<open>run_id\<close> keeps it. Every successful registration installs and starts the control
  under that run id, with the login message carrying it; and a login that passes the
  checks and gets its run id is registered.
\<close>

theorem C6_run_id:
  "(login_RunId m = [] \<and> RandId env = Inr randid \<longrightarrow>
      assign_run_id env m = Inr (m\<lparr>login_RunId := login_User m @ ''-'' @ randid\<rparr>))
   \<and> (login_RunId m \<noteq> [] \<longrightarrow> assign_run_id env m = Inr m)
   \<and> (RegisterControl env svr conn m = (None, svr', effs) \<longrightarrow>
        (\<exists>m' ctl. assign_run_id env m = Inr m'
           \<and> ctlsByRunId (ctlManager svr') (login_RunId m') = Some ctl
           \<and> ctl_runId ctl = login_RunId m' \<and> ctl_loginMsg ctl = m'
           \<and> ControlStart (ctl_id ctl) \<in> set effs))
   \<and> (login_checks env m = Inr lim \<and> assign_run_id env m = Inr m2 \<longrightarrow>
        fst (RegisterControl env svr conn m) = None)"
proof (intro conjI impI)
  assume "login_RunId m = [] \<and> RandId env = Inr randid"
  then show "assign_run_id env m = Inr (m\<lparr>login_RunId := login_User m @ ''-'' @ randid\<rparr>)"
    by (simp add: assign_run_id_def)
next
  assume "login_RunId m \<noteq> []"
  then show "assign_run_id env m = Inr m" by (simp add: assign_run_id_def)
next
  assume r: "RegisterControl env svr conn m = (None, svr', effs)"
  from RegisterControl_success_inv [OF r] obtain i out m'
    where c: "login_checks env m = Inr (i, out)" and a: "assign_run_id env m = Inr m'"
    by auto
  from RegisterControl_success [OF c a, of svr conn] r
  have s: "svr' = svr\<lparr>ctlManager := (ctlManager svr)\<lparr>ctlsByRunId :=
              (ctlsByRunId (ctlManager svr))(login_RunId m' \<mapsto> NewControl (next_ctl svr) conn m' i out)\<rparr>,
          next_ctl := Suc (next_ctl svr)\<rparr>"
    and e: "ControlStart (next_ctl svr) \<in> set effs"
    by auto
  show "\<exists>m' ctl. assign_run_id env m = Inr m'
           \<and> ctlsByRunId (ctlManager svr') (login_RunId m') = Some ctl
           \<and> ctl_runId ctl = login_RunId m' \<and> ctl_loginMsg ctl = m'
           \<and> ControlStart (ctl_id ctl) \<in> set effs"
  proof (intro exI [of _ m'] exI [of _ "NewControl (next_ctl svr) conn m' i out"] conjI)
    show "assign_run_id env m = Inr m'" by (rule a)
    show "ctlsByRunId (ctlManager svr') (login_RunId m') = Some (NewControl (next_ctl svr) conn m' i out)"
      by (simp add: s)
    show "ctl_runId (NewControl (next_ctl svr) conn m' i out) = login_RunId m'"
      by (simp add: NewControl_def)
    show "ctl_loginMsg (NewControl (next_ctl svr) conn m' i out) = m'"
      by (simp add: NewControl_def)
    show "ControlStart (ctl_id (NewControl (next_ctl svr) conn m' i out)) \<in> set effs"
      using e by (simp add: NewControl_def)
  qed
next
  assume "login_checks env m = Inr lim \<and> assign_run_id env m = Inr m2"
  then show "fst (RegisterControl env svr conn m) = None"
    using RegisterControl_success [of env m "fst lim" "snd lim" m2 svr conn] by simp
qed

theorem C6_run_id_witness:
  "assign_run_id
      \<lparr>Token = ''secret'', EnableApi = False, ApiBaseUrl = [], ApiToken = [],
       version_Compat = (\<lambda>v. (True, [])), version_Full = ''0.27.0'',
       GetAuthKey = (\<lambda>token ts. token @ Sprintf_d ts), RandId = Inr ''abcd'',
       api_NewService = (\<lambda>u. None), api_CheckToken = (\<lambda>u k t a. Inr True),
       api_GetProxyLimit = (\<lambda>u t a. Inr (0, 0)), time_Now_Unix = 1000000\<rparr>
      \<lparr>login_Version = ''0.27.0'', login_Hostname = [], login_Os = [], login_Arch = [],
       login_User = ''bob'', login_PrivilegeKey = ''secret0'', login_Timestamp = 0, login_RunId = []\<rparr>
     = Inr \<lparr>login_Version = ''0.27.0'', login_Hostname = [], login_Os = [], login_Arch = [],
       login_User = ''bob'', login_PrivilegeKey = ''secret0'', login_Timestamp = 0, login_RunId = ''bob-abcd''\<rparr>
   \<and> fst (RegisterControl
      \<lparr>Token = ''secret'', EnableApi = False, ApiBaseUrl = [], ApiToken = [],
       version_Compat = (\<lambda>v. (True, [])), version_Full = ''0.27.0'',
       GetAuthKey = (\<lambda>token ts. token @ Sprintf_d ts), RandId = Inr ''abcd'',
       api_NewService = (\<lambda>u. None), api_CheckToken = (\<lambda>u k t a. Inr True),
       api_GetProxyLimit = (\<lambda>u t a. Inr (0, 0)), time_Now_Unix = 1000000\<rparr>
      \<lparr>ctlManager = \<lparr>ctlsByRunId = Map.empty\<rparr>, next_ctl = 0\<rparr> 7
      \<lparr>login_Version = ''0.27.0'', login_Hostname = [], login_Os = [], login_Arch = [],
       login_User = ''bob'', login_PrivilegeKey = ''secret0'', login_Timestamp = 0, login_RunId = []\<rparr>) = None"
  (is "assign_run_id ?E ?M = Inr ?M' \<and> fst (RegisterControl ?E ?S 7 ?M) = None")
proof -
  have h: "login_RunId ?M = [] \<and> RandId ?E = Inr ''abcd''" by simp
  note a = C6_run_id [where m = ?M and env = ?E and randid = "''abcd''",
      THEN conjunct1, THEN mp, OF h]
  have c: "login_checks ?E ?M = Inr (0, 0) \<and> assign_run_id ?E ?M = Inr (?M\<lparr>login_RunId := ''bob'' @ ''-'' @ ''abcd''\<rparr>)"
    by (simp add: server_defs)
  note r = C6_run_id [where m = ?M and env = ?E and svr = ?S and conn = 7,
      THEN conjunct2, THEN conjunct2, THEN conjunct2, THEN mp, OF c]
  from a r show ?thesis by simp
qed


subsection \<open>C2: failed logins\<close>

text \<open>
  C2 (as stated: a login with a timestamp stale beyond 15 minutes fails). This fails:
  \<^verbatim>\<open>RegisterControl\<close> never compares the timestamp with the clock; it only enters the
  key. A login whose timestamp lies 1000000 seconds in the past, with the key that
  belongs to that timestamp, is accepted: no error response is written and the control
  is installed and started.
\<close>

theorem C2_stale_timestamp_counterexample:
  "login_Timestamp
      \<lparr>login_Version = ''0.27.0'', login_Hostname = [], login_Os = [], login_Arch = [],
       login_User = ''bob'', login_PrivilegeKey = ''secret0'', login_Timestamp = 0, login_RunId = []\<rparr> + 15 * 60
     < time_Now_Unix
      \<lparr>Token = ''secret'', EnableApi = False, ApiBaseUrl = [], ApiToken = [],
       version_Compat = (\<lambda>v. (True, [])), version_Full = ''0.27.0'',
       GetAuthKey = (\<lambda>token ts. token @ Sprintf_d ts), RandId = Inr ''abcd'',
       api_NewService = (\<lambda>u. None), api_CheckToken = (\<lambda>u k t a. Inr True),
       api_GetProxyLimit = (\<lambda>u t a. Inr (0, 0)), time_Now_Unix = 1000000\<rparr>
   \<and> HandleLogin
      \<lparr>Token = ''secret'', EnableApi = False, ApiBaseUrl = [], ApiToken = [],
       version_Compat = (\<lambda>v. (True, [])), version_Full = ''0.27.0'',
       GetAuthKey = (\<lambda>token ts. token @ Sprintf_d ts), RandId = Inr ''abcd'',
       api_NewService = (\<lambda>u. None), api_CheckToken = (\<lambda>u k t a. Inr True),
       api_GetProxyLimit = (\<lambda>u t a. Inr (0, 0)), time_Now_Unix = 1000000\<rparr>
      \<lparr>ctlManager = \<lparr>ctlsByRunId = Map.empty\<rparr>, next_ctl = 0\<rparr> 7
      \<lparr>login_Version = ''0.27.0'', login_Hostname = [], login_Os = [], login_Arch = [],
       login_User = ''bob'', login_PrivilegeKey = ''secret0'', login_Timestamp = 0, login_RunId = []\<rparr>
     = (\<lparr>ctlManager = \<lparr>ctlsByRunId = [''bob-abcd'' \<mapsto> NewControl 0 7
            \<lparr>login_Version = ''0.27.0'', login_Hostname = [], login_Os = [], login_Arch = [],
       login_User = ''bob'', login_PrivilegeKey = ''secret0'', login_Timestamp = 0, login_RunId = ''bob-abcd''\<rparr> 0 0]\<rparr>, next_ctl = 1\<rparr>,
        [Installed ''bob-abcd'' 0, ControlStart 0, StatsNewClient])"
  by (simp add: server_defs)


text \<open>
  C2 (amended). Registration fails whenever the client version is incompatible or the
  supplied key differs from the key computed from the token and the login's timestamp
  (the age of the timestamp is not checked). On every failure of \<^verbatim>\<open>RegisterControl\<close> the
  server writes a LoginResp carrying the error text and then closes the connection, and
  the service is unchanged: no control session is installed.
\<close>

theorem C2_login_failure_amended:
  "((\<not> fst (version_Compat env (login_Version m))
      \<or> GetAuthKey env (Token env) (login_Timestamp m) \<noteq> login_PrivilegeKey m) \<longrightarrow>
       (\<exists>e. fst (RegisterControl env svr conn m) = Some e))
   \<and> (fst (RegisterControl env svr conn m) = Some e \<longrightarrow>
        HandleLogin env svr conn m = (svr, [WriteLoginResp conn (version_Full env) e, ConnClose conn]))"
proof (intro conjI impI)
  assume "\<not> fst (version_Compat env (login_Version m))
      \<or> GetAuthKey env (Token env) (login_Timestamp m) \<noteq> login_PrivilegeKey m"
  from login_checks_reject [OF this] show "\<exists>e. fst (RegisterControl env svr conn m) = Some e"
    by (auto simp: RegisterControl_def)
next
  assume "fst (RegisterControl env svr conn m) = Some e"
  from RegisterControl_failure [OF this]
  show "HandleLogin env svr conn m = (svr, [WriteLoginResp conn (version_Full env) e, ConnClose conn])"
    by (simp add: HandleLogin_def)
qed

theorem C2_login_failure_amended_witness:
  "HandleLogin
      \<lparr>Token = ''secret'', EnableApi = False, ApiBaseUrl = [], ApiToken = [],
       version_Compat = (\<lambda>v. (True, [])), version_Full = ''0.27.0'',
       GetAuthKey = (\<lambda>token ts. token @ Sprintf_d ts), RandId = Inr ''abcd'',
       api_NewService = (\<lambda>u. None), api_CheckToken = (\<lambda>u k t a. Inr True),
       api_GetProxyLimit = (\<lambda>u t a. Inr (0, 0)), time_Now_Unix = 1000000\<rparr>
      \<lparr>ctlManager = \<lparr>ctlsByRunId = Map.empty\<rparr>, next_ctl = 0\<rparr> 7
      \<lparr>login_Version = ''0.27.0'', login_Hostname = [], login_Os = [], login_Arch = [],
       login_User = ''bob'', login_PrivilegeKey = ''wrong'', login_Timestamp = 0, login_RunId = []\<rparr>
     = (\<lparr>ctlManager = \<lparr>ctlsByRunId = Map.empty\<rparr>, next_ctl = 0\<rparr>,
        [WriteLoginResp 7 ''0.27.0'' ''authorization failed'', ConnClose 7])"
  (is "HandleLogin ?E ?S 7 ?M = _")
proof -
  have f: "fst (RegisterControl ?E ?S 7 ?M) = Some ''authorization failed''"
    by (simp add: server_defs)
  from C2_login_failure_amended [where env = ?E and svr = ?S and conn = 7 and m = ?M,
      THEN conjunct2, THEN mp, OF f]
  show ?thesis by simp
qed


subsection \<open>C1: a login under the run id of an existing session\<close>








end
